theory Spec2Isabelle
  imports Complex_Main
begin

section \<open>Conventions of the embedding\<close>

text \<open>
  The repository is a JavaScript trading bot. JavaScript numbers are modelled as exact
  rationals (\<open>rat\<close>), so the rounding of IEEE doubles is not part of the model;
  \<open>BN\<close> and \<open>BigInt\<close> values are \<open>int\<close>; counters that start at zero and are only
  incremented are \<open>nat\<close>. A rejected promise or a thrown exception is the \<open>Inl\<close> branch
  of a sum. Everything the program reads from outside (the random generator, the clock,
  the RPC node, the market data provider, the trade execution library) is an explicit
  input. NaN is written out where the modelled code can compute it from its
  configuration (an empty window, a remainder by zero); a NaN that an external service
  might return is not modelled.
\<close>

datatype error =
    ConfigError     \<comment> \<open>thrown by a \<open>validate*\<close> method of ConfigManager\<close>
  | RpcError        \<comment> \<open>\<open>connection.getBalance\<close> rejected\<close>
  | TradeError      \<comment> \<open>\<open>trader.buy\<close> / \<open>trader.sell\<close> rejected\<close>
  | AssertionError  \<comment> \<open>a bn.js assertion failed (division by zero, number above 53 bits)\<close>
  | RangeError      \<comment> \<open>\<open>Array(n)\<close> with an invalid length\<close>

definition bind_err :: "error + 'a \<Rightarrow> ('a \<Rightarrow> error + 'b) \<Rightarrow> error + 'b" where
  "bind_err m f = (case m of Inl e \<Rightarrow> Inl e | Inr x \<Rightarrow> f x)"

text \<open>\<open>BN.div\<close> and the \<open>/\<close> of BigInt truncate towards zero; \<open>BN.mod\<close> keeps the sign
  of the dividend.\<close>

definition trunc_div :: "int \<Rightarrow> int \<Rightarrow> int" where
  "trunc_div a b = sgn a * sgn b * (\<bar>a\<bar> div \<bar>b\<bar>)"

definition trunc_mod :: "int \<Rightarrow> int \<Rightarrow> int" where
  "trunc_mod a b = sgn a * (\<bar>a\<bar> mod \<bar>b\<bar>)"

section \<open>ConfigManager (src/src/utils.js)\<close>

text \<open>The value of an environment variable as \<open>validateNumber\<close> sees it: undefined or
  empty (falsy, so the default is taken), a text that \<open>parseFloat\<close> reads as NaN, or a
  number.\<close>

datatype env_value = Unset | NotANumber | Num rat

text \<open>The value of an environment variable as \<open>validateBoolean\<close> sees it: undefined,
  one of true/1/yes, one of false/0/no, or any other text.\<close>

datatype env_flag = FlagUnset | FlagTrue | FlagFalse | FlagOther

definition validateNumber :: "env_value \<Rightarrow> rat \<Rightarrow> rat \<Rightarrow> rat \<Rightarrow> error + rat" where
  "validateNumber v mn mx defaultValue =
     (case (case v of Unset \<Rightarrow> Some defaultValue | NotANumber \<Rightarrow> None | Num n \<Rightarrow> Some n) of
        None \<Rightarrow> Inl ConfigError
      | Some num \<Rightarrow> if num < mn \<or> num > mx then Inl ConfigError else Inr num)"

definition validateSolAmount :: "env_value \<Rightarrow> rat \<Rightarrow> rat \<Rightarrow> rat \<Rightarrow> error + int" where
  "validateSolAmount v mn mx defaultValue =
     bind_err (validateNumber v mn mx defaultValue) (\<lambda>amount. Inr \<lfloor>amount * 1000000000\<rfloor>)"

definition validatePercentage :: "env_value \<Rightarrow> rat \<Rightarrow> error + rat" where
  "validatePercentage v defaultValue =
     bind_err (validateNumber v 0 100 defaultValue) (\<lambda>pct. Inr (pct / 100))"

definition validateProbability :: "env_value \<Rightarrow> rat \<Rightarrow> error + rat" where
  "validateProbability v defaultValue = validateNumber v 0 1 defaultValue"

definition validateBoolean :: "env_flag \<Rightarrow> bool \<Rightarrow> error + bool" where
  "validateBoolean v defaultValue =
     (case v of FlagUnset \<Rightarrow> Inr defaultValue | FlagTrue \<Rightarrow> Inr True
      | FlagFalse \<Rightarrow> Inr False | FlagOther \<Rightarrow> Inl ConfigError)"

definition TRADE_MODES :: "string list" where
  "TRADE_MODES = [''adaptive'', ''buy_first'', ''sell_first'', ''buy_only'', ''sell_only'', ''random'']"

definition BEHAVIOR_PROFILES :: "string list" where
  "BEHAVIOR_PROFILES = [''retail'', ''whale'', ''mixed'']"

definition PERSONALITIES :: "string list" where
  "PERSONALITIES = [''flipper'', ''hodler'', ''momentum'']"

definition validateOneOf :: "string list \<Rightarrow> string \<Rightarrow> error + string" where
  "validateOneOf allowed v = (if v \<noteq> [] \<and> v \<in> set allowed then Inr v else Inl ConfigError)"

text \<open>The environment, restricted to the variables whose values the modelled code reads.\<close>

record env =
  TRADE_MODE :: "string option"
  BUY_PROB :: env_value
  NUM_ACTIONS_PER_CYCLE :: env_value
  SWAP_AMOUNT :: env_value
  DELAY_MS :: env_value
  JITTER_PCT :: env_value
  ENABLE_REBALANCING :: env_flag
  BIRDEYE_API_KEY :: "string option"
  ENABLE_CIRCUIT_BREAKER :: env_flag
  MAX_CONSECUTIVE_FAILURES :: env_value
  MAX_FAILURE_RATE_PCT :: env_value
  FAILURE_RATE_WINDOW :: env_value
  EMERGENCY_STOP_LOSS_PCT :: env_value
  BATCH_SIZE :: env_value
  PARTIAL_SELL_ENABLED :: env_flag
  PARTIAL_SELL_MIN_PCT :: env_value
  PARTIAL_SELL_MAX_PCT :: env_value
  BEHAVIOR_PROFILE :: "string option"
  MIN_WALLET_COOLDOWN_MS :: env_value
  MAX_WALLET_COOLDOWN_MS :: env_value
  SHUFFLE_WALLETS :: env_flag
  REBALANCE_INTERVAL_CYCLES :: env_value
  SESSION_PAUSE_MIN :: env_value
  TWAP_PARTS :: env_value
  TWAP_MAX_DELAY :: env_value
  VOL_THRESHOLD :: env_value
  RAMP_CYCLES :: env_value

record config =
  tradeMode :: string
  buyProb :: rat
  numActionsPerCycle :: rat
  swapAmount :: int
  baseDelayMs :: rat
  jitterPct :: rat
  enableRebalancing :: bool
  enableCircuitBreaker :: bool
  maxConsecutiveFailures :: rat
  maxFailureRate :: rat
  failureRateWindow :: rat
  emergencyStopLoss :: rat
  batchSize :: rat
  partialSellEnabled :: bool
  partialSellMin :: rat
  partialSellMax :: rat
  behaviorProfile :: string
  minWalletCooldownMs :: rat
  maxWalletCooldownMs :: rat
  shuffleWallets :: bool
  rebalanceInterval :: rat
  sessionPauseMin :: rat
  twapParts :: rat
  twapMaxDelay :: rat
  volThreshold :: rat
  rampCycles :: rat
  useBirdeye :: bool

text \<open>\<open>validateAndLoadConfig\<close>, in the order of the source, for the fields above. The
  first failing validation throws.\<close>

definition validateAndLoadConfig :: "env \<Rightarrow> error + config" where
  "validateAndLoadConfig e =
     bind_err (validateOneOf TRADE_MODES (case TRADE_MODE e of None \<Rightarrow> ''adaptive'' | Some s \<Rightarrow> if s = [] then ''adaptive'' else s)) (\<lambda>c_tradeMode.
     bind_err (validateProbability (BUY_PROB e) (1/2)) (\<lambda>c_buyProb.
     bind_err (validateNumber (NUM_ACTIONS_PER_CYCLE e) 1 10 2) (\<lambda>c_numActions.
     bind_err (validateSolAmount (SWAP_AMOUNT e) (1/10000) 1 (1/100)) (\<lambda>c_swapAmount.
     bind_err (validateNumber (DELAY_MS e) 100 60000 5000) (\<lambda>c_baseDelayMs.
     bind_err (validatePercentage (JITTER_PCT e) 10) (\<lambda>c_jitterPct.
     bind_err (validateBoolean (ENABLE_REBALANCING e) True) (\<lambda>c_enableRebalancing.
     bind_err (validateBoolean (ENABLE_CIRCUIT_BREAKER e) True) (\<lambda>c_enableCircuitBreaker.
     bind_err (validateNumber (MAX_CONSECUTIVE_FAILURES e) 1 100 10) (\<lambda>c_maxConsecutiveFailures.
     bind_err (validatePercentage (MAX_FAILURE_RATE_PCT e) 50) (\<lambda>c_maxFailureRate.
     bind_err (validateNumber (FAILURE_RATE_WINDOW e) 5 100 10) (\<lambda>c_failureRateWindow.
     bind_err (validatePercentage (EMERGENCY_STOP_LOSS_PCT e) 30) (\<lambda>c_emergencyStopLoss.
     bind_err (validateNumber (BATCH_SIZE e) 1 1000 100) (\<lambda>c_batchSize.
     bind_err (validateBoolean (PARTIAL_SELL_ENABLED e) True) (\<lambda>c_partialSellEnabled.
     bind_err (validatePercentage (PARTIAL_SELL_MIN_PCT e) 22) (\<lambda>c_partialSellMin.
     bind_err (validatePercentage (PARTIAL_SELL_MAX_PCT e) 68) (\<lambda>c_partialSellMax.
     bind_err (validateOneOf BEHAVIOR_PROFILES (case BEHAVIOR_PROFILE e of None \<Rightarrow> ''retail'' | Some s \<Rightarrow> if s = [] then ''retail'' else s)) (\<lambda>c_behaviorProfile.
     bind_err (validateNumber (MIN_WALLET_COOLDOWN_MS e) 60000 3600000 300000) (\<lambda>c_minWalletCooldownMs.
     bind_err (validateNumber (MAX_WALLET_COOLDOWN_MS e) 60000 3600000 1800000) (\<lambda>c_maxWalletCooldownMs.
     bind_err (validateBoolean (SHUFFLE_WALLETS e) True) (\<lambda>c_shuffleWallets.
     bind_err (validateNumber (REBALANCE_INTERVAL_CYCLES e) 1 1000 50) (\<lambda>c_rebalanceInterval.
     bind_err (validateNumber (SESSION_PAUSE_MIN e) 1 100 10) (\<lambda>c_sessionPauseMin.
     bind_err (validateNumber (TWAP_PARTS e) 1 20 5) (\<lambda>c_twapParts.
     bind_err (validateNumber (TWAP_MAX_DELAY e) 1000 60000 10000) (\<lambda>c_twapMaxDelay.
     bind_err (validatePercentage (VOL_THRESHOLD e) (5/100)) (\<lambda>c_volThreshold.
     bind_err (validateNumber (RAMP_CYCLES e) 1 1000 30) (\<lambda>c_rampCycles.
     Inr \<lparr> tradeMode = c_tradeMode, buyProb = c_buyProb, numActionsPerCycle = c_numActions,
           swapAmount = c_swapAmount, baseDelayMs = c_baseDelayMs, jitterPct = c_jitterPct,
           enableRebalancing = c_enableRebalancing,
           enableCircuitBreaker = c_enableCircuitBreaker,
           maxConsecutiveFailures = c_maxConsecutiveFailures,
           maxFailureRate = c_maxFailureRate, failureRateWindow = c_failureRateWindow,
           emergencyStopLoss = c_emergencyStopLoss, batchSize = c_batchSize,
           partialSellEnabled = c_partialSellEnabled, partialSellMin = c_partialSellMin,
           partialSellMax = c_partialSellMax, behaviorProfile = c_behaviorProfile,
           minWalletCooldownMs = c_minWalletCooldownMs,
           maxWalletCooldownMs = c_maxWalletCooldownMs, shuffleWallets = c_shuffleWallets,
           rebalanceInterval = c_rebalanceInterval, sessionPauseMin = c_sessionPauseMin,
           twapParts = c_twapParts, twapMaxDelay = c_twapMaxDelay,
           volThreshold = c_volThreshold, rampCycles = c_rampCycles,
           useBirdeye = (case BIRDEYE_API_KEY e of None \<Rightarrow> False | Some k \<Rightarrow> k \<noteq> []) \<rparr>
     ))))))))))))))))))))))))))"

text \<open>The environment with no variable set: every field takes its default.\<close>

definition default_env :: env where
  "default_env = \<lparr> TRADE_MODE = None, BUY_PROB = Unset, NUM_ACTIONS_PER_CYCLE = Unset,
     SWAP_AMOUNT = Unset, DELAY_MS = Unset, JITTER_PCT = Unset,
     ENABLE_REBALANCING = FlagUnset, BIRDEYE_API_KEY = None,
     ENABLE_CIRCUIT_BREAKER = FlagUnset, MAX_CONSECUTIVE_FAILURES = Unset,
     MAX_FAILURE_RATE_PCT = Unset, FAILURE_RATE_WINDOW = Unset,
     EMERGENCY_STOP_LOSS_PCT = Unset, BATCH_SIZE = Unset, PARTIAL_SELL_ENABLED = FlagUnset,
     PARTIAL_SELL_MIN_PCT = Unset, PARTIAL_SELL_MAX_PCT = Unset, BEHAVIOR_PROFILE = None,
     MIN_WALLET_COOLDOWN_MS = Unset, MAX_WALLET_COOLDOWN_MS = Unset,
     SHUFFLE_WALLETS = FlagUnset, REBALANCE_INTERVAL_CYCLES = Unset,
     SESSION_PAUSE_MIN = Unset, TWAP_PARTS = Unset, TWAP_MAX_DELAY = Unset,
     VOL_THRESHOLD = Unset, RAMP_CYCLES = Unset \<rparr>"

definition default_config :: config where
  "default_config = \<lparr> tradeMode = ''adaptive'', buyProb = 1/2, numActionsPerCycle = 2,
     swapAmount = 10000000, baseDelayMs = 5000, jitterPct = 1/10,
     enableRebalancing = True, enableCircuitBreaker = True,
     maxConsecutiveFailures = 10, maxFailureRate = 1/2, failureRateWindow = 10,
     emergencyStopLoss = 3/10, batchSize = 100, partialSellEnabled = True,
     partialSellMin = 22/100, partialSellMax = 68/100, behaviorProfile = ''retail'',
     minWalletCooldownMs = 300000, maxWalletCooldownMs = 1800000, shuffleWallets = True,
     rebalanceInterval = 50, sessionPauseMin = 10, twapParts = 5, twapMaxDelay = 10000,
     volThreshold = 5/10000, rampCycles = 30, useBirdeye = False \<rparr>"

section \<open>CircuitBreaker (src/src/utils.js)\<close>

record CircuitBreaker =
  consecutiveFailures :: nat
  recentTrades :: "bool list"
  initialSinkBalance :: int
  checkCounter :: nat

definition CircuitBreaker_new :: CircuitBreaker where
  "CircuitBreaker_new =
     \<lparr> consecutiveFailures = 0, recentTrades = [], initialSinkBalance = 0, checkCounter = 0 \<rparr>"

definition recordTradeResult :: "config \<Rightarrow> bool \<Rightarrow> CircuitBreaker \<Rightarrow> CircuitBreaker" where
  "recordTradeResult cfg success cb =
     (if \<not> enableCircuitBreaker cfg then cb
      else
        let pushed = recentTrades cb @ [success];
            trades = (if of_nat (length pushed) > failureRateWindow cfg then tl pushed else pushed)
        in cb \<lparr> recentTrades := trades,
                consecutiveFailures := (if success then 0 else consecutiveFailures cb + 1) \<rparr>)"

text \<open>The \<open>reason\<close> text of a check, by the trigger that wrote it and the number it
  prints.\<close>

datatype trip_reason =
    NoReason
  | ConsecutiveFailuresReason nat
  | FailureRateReason rat
  | LossReason int

record check_result =
  tripped :: bool
  reason :: trip_reason

text \<open>\<open>failures / length * 100\<close>; on an empty window JavaScript computes NaN, and every
  comparison with NaN is false.\<close>

definition failureRate :: "bool list \<Rightarrow> rat option" where
  "failureRate trades =
     (if trades = [] then None
      else Some (of_nat (length (filter (\<lambda>r. \<not> r) trades)) / of_nat (length trades) * 100))"

text \<open>\<open>checkCircuitBreakers connection sinkKeypair\<close>: \<open>hasSink\<close> says that
  \<open>sinkKeypair\<close> is not null, \<open>getBalance\<close> is what \<open>connection.getBalance\<close> answers
  if it is asked. The counter is incremented before the balance is awaited.\<close>

definition checkCircuitBreakers ::
  "config \<Rightarrow> error + int \<Rightarrow> bool \<Rightarrow> CircuitBreaker \<Rightarrow> (error + check_result) \<times> CircuitBreaker" where
  "checkCircuitBreakers cfg getBalance hasSink cb =
     (if \<not> enableCircuitBreaker cfg then (Inr \<lparr> tripped = False, reason = NoReason \<rparr>, cb)
      else if of_nat (consecutiveFailures cb) \<ge> maxConsecutiveFailures cfg
      then (Inr \<lparr> tripped = True, reason = ConsecutiveFailuresReason (consecutiveFailures cb) \<rparr>, cb)
      else if of_nat (length (recentTrades cb)) \<ge> failureRateWindow cfg
              \<and> (case failureRate (recentTrades cb) of None \<Rightarrow> False
                  | Some fr \<Rightarrow> fr > maxFailureRate cfg)
      then (Inr \<lparr> tripped = True,
                  reason = FailureRateReason (the (failureRate (recentTrades cb))) \<rparr>, cb)
      else
        let cb' = cb \<lparr> checkCounter := checkCounter cb + 1 \<rparr> in
        if hasSink \<and> initialSinkBalance cb' > 0 \<and> checkCounter cb' mod 5 = 0
        then (case getBalance of
                Inl err \<Rightarrow> (Inl err, cb')
              | Inr currentBalance \<Rightarrow>
                  let loss = trunc_div ((initialSinkBalance cb' - currentBalance) * 100)
                                       (initialSinkBalance cb')
                  in if of_int loss > emergencyStopLoss cfg
                     then (Inr \<lparr> tripped = True, reason = LossReason loss \<rparr>, cb')
                     else (Inr \<lparr> tripped = False, reason = NoReason \<rparr>, cb'))
        else (Inr \<lparr> tripped = False, reason = NoReason \<rparr>, cb'))"

text \<open>A sequence of \<open>recordTradeResult\<close> calls, oldest first.\<close>

definition recordOutcomes :: "config \<Rightarrow> bool list \<Rightarrow> CircuitBreaker \<Rightarrow> CircuitBreaker" where
  "recordOutcomes cfg outcomes cb = foldl (\<lambda>b s. recordTradeResult cfg s b) cb outcomes"

text \<open>The trip condition in the words of the specification (section 4.4), with the
  thresholds as configured: the failure-rate and loss thresholds are percentages.\<close>

definition spec_should_trip ::
  "rat \<Rightarrow> rat \<Rightarrow> rat \<Rightarrow> rat \<Rightarrow> nat \<Rightarrow> bool list \<Rightarrow> bool \<Rightarrow> rat \<Rightarrow> bool" where
  "spec_should_trip maxConsecutive windowSize maxFailureRatePct lossPctThreshold
       consecutive window lossCheckDue lossPct =
     (of_nat consecutive \<ge> maxConsecutive
      \<or> (of_nat (length window) \<ge> windowSize
          \<and> of_nat (length (filter (\<lambda>r. \<not> r) window)) / windowSize * 100 > maxFailureRatePct)
      \<or> (lossCheckDue \<and> lossPct > lossPctThreshold))"

section \<open>The outside world\<close>

text \<open>
  Each external source is a stream of answers, read in order: the k-th use of a source
  gets its k-th answer, and the counter of the source is advanced. What the program
  does to the outside (calls of the trade execution library, sleeps) is appended to
  \<open>events\<close>. Nothing is assumed about the answers.
\<close>

datatype trade_reply =
    Rejects        \<comment> \<open>the promise of \<open>trader.buy\<close> / \<open>trader.sell\<close> rejects\<close>
  | Sig string     \<comment> \<open>it resolves with this signature; the empty text is falsy\<close>

datatype event =
    TradeBuy int   \<comment> \<open>\<open>trader.buy\<close>, with the amount in whole SOL it is given\<close>
  | TradeSell int  \<comment> \<open>\<open>trader.sell\<close>, with the token amount it is given\<close>
  | Sleep rat      \<comment> \<open>\<open>delay(ms)\<close>\<close>

record world =
  randoms :: "nat \<Rightarrow> rat"                \<comment> \<open>\<open>Math.random()\<close>\<close>
  n_random :: nat
  clock :: "nat \<Rightarrow> int"                 \<comment> \<open>\<open>Date.now()\<close>\<close>
  n_clock :: nat
  trader :: "nat \<Rightarrow> trade_reply"        \<comment> \<open>\<open>trader.buy\<close> / \<open>trader.sell\<close>\<close>
  n_trades :: nat
  volatility :: "nat \<Rightarrow> rat"            \<comment> \<open>\<open>marketData.fetchVolatility()\<close>\<close>
  n_volatility :: nat
  liquidity :: "nat \<Rightarrow> rat"             \<comment> \<open>\<open>marketData.getMarketData().liquidity\<close>\<close>
  n_liquidity :: nat
  marketSafe :: "nat \<Rightarrow> bool"           \<comment> \<open>\<open>marketData.checkMarketConditions(_).safe\<close>\<close>
  n_marketChecks :: nat
  tokenBalance :: "nat \<Rightarrow> int"          \<comment> \<open>\<open>getCurrentMemeBalance\<close>: the account's amount, 0 if it cannot be read\<close>
  n_tokenBalance :: nat
  solBalance :: "nat \<Rightarrow> error + int"    \<comment> \<open>\<open>connection.getBalance\<close>\<close>
  n_solBalance :: nat
  sentimentApi :: "nat \<Rightarrow> int option"   \<comment> \<open>the fear-and-greed request: the parsed value, or a failure\<close>
  n_sentiment :: nat
  events :: "event list"

definition random :: "world \<Rightarrow> rat \<times> world" where
  "random w = (randoms w (n_random w), w \<lparr> n_random := Suc (n_random w) \<rparr>)"

definition Date_now :: "world \<Rightarrow> int \<times> world" where
  "Date_now w = (clock w (n_clock w), w \<lparr> n_clock := Suc (n_clock w) \<rparr>)"

definition fetchVolatility :: "world \<Rightarrow> rat \<times> world" where
  "fetchVolatility w = (volatility w (n_volatility w), w \<lparr> n_volatility := Suc (n_volatility w) \<rparr>)"

definition getMarketData_liquidity :: "world \<Rightarrow> rat \<times> world" where
  "getMarketData_liquidity w = (liquidity w (n_liquidity w), w \<lparr> n_liquidity := Suc (n_liquidity w) \<rparr>)"

definition checkMarketConditions_safe :: "world \<Rightarrow> bool \<times> world" where
  "checkMarketConditions_safe w =
     (marketSafe w (n_marketChecks w), w \<lparr> n_marketChecks := Suc (n_marketChecks w) \<rparr>)"

definition getCurrentMemeBalance :: "world \<Rightarrow> int \<times> world" where
  "getCurrentMemeBalance w =
     (tokenBalance w (n_tokenBalance w), w \<lparr> n_tokenBalance := Suc (n_tokenBalance w) \<rparr>)"

definition getBalance :: "world \<Rightarrow> (error + int) \<times> world" where
  "getBalance w = (solBalance w (n_solBalance w), w \<lparr> n_solBalance := Suc (n_solBalance w) \<rparr>)"

definition sentimentRequest :: "world \<Rightarrow> int option \<times> world" where
  "sentimentRequest w = (sentimentApi w (n_sentiment w), w \<lparr> n_sentiment := Suc (n_sentiment w) \<rparr>)"

definition delay :: "rat \<Rightarrow> world \<Rightarrow> world" where
  "delay ms w = w \<lparr> events := events w @ [Sleep ms] \<rparr>"

section \<open>Constants (src/src/utils.js, constants)\<close>

definition LAMPORTS_PER_SOL :: int where
  "LAMPORTS_PER_SOL = 1000000000"

definition MIN_MEME_TOKENS :: int where
  "MIN_MEME_TOKENS = 1000000"

definition SENTIMENT_FETCH_COOLDOWN_MS :: int where
  "SENTIMENT_FETCH_COOLDOWN_MS = 3600000"

definition MAX_COOLDOWN_AGE_MS :: int where
  "MAX_COOLDOWN_AGE_MS = 24 * 60 * 60 * 1000"

text \<open>\<open>BN.toNumber\<close> asserts that the number fits 53 bits.\<close>

definition BN_toNumber :: "int \<Rightarrow> error + rat" where
  "BN_toNumber x = (if \<bar>x\<bar> < 2 ^ 53 then Inr (of_int x) else Inl AssertionError)"

text \<open>\<open>getJitteredValue base jitterPct\<close>, with the random draw as an argument.\<close>

definition getJitteredValue :: "rat \<Rightarrow> rat \<Rightarrow> rat \<Rightarrow> rat" where
  "getJitteredValue r base jitter = (let variance = (r - 1/2) * 2 * jitter in base * (1 + variance))"

section \<open>WalletManager state read by the trading engine (src/unnamed/part_002)\<close>

record wallet_data =
  pubkey :: string
  wname :: string

text \<open>An entry of \<open>activeWallets\<close>: the keypair is represented by its public key.\<close>

record wallet =
  keypair :: string
  name :: string

record WalletManager =
  walletData :: "wallet_data list"
  activeWallets :: "wallet list"
  walletCooldowns :: "string \<rightharpoonup> int"
  walletTradeCount :: "string \<rightharpoonup> nat"
  walletPersonalities :: "string \<rightharpoonup> string"
  hasSinkKeypair :: bool

definition getPersonality :: "WalletManager \<Rightarrow> string \<Rightarrow> string" where
  "getPersonality wm key =
     (case walletPersonalities wm key of None \<Rightarrow> ''flipper''
      | Some p \<Rightarrow> if p = [] then ''flipper'' else p)"

section \<open>TradingEngine (src/src/trading/TradingEngine.js)\<close>

text \<open>The fields of the engine that its methods read. The constructor assigns
  \<open>sentimentScore\<close>, \<open>lastSentimentFetch\<close> and \<open>cycleCount\<close>; it does not assign
  \<open>isRunning\<close>, and no method of the repository assigns \<open>cycleCount\<close> or \<open>isRunning\<close> of
  the engine afterwards. A property that was never assigned reads as \<open>undefined\<close>:
  \<open>None\<close>.\<close>

record TradingEngine =
  sentimentScore :: int
  lastSentimentFetch :: int
  cycleCount :: nat
  isRunning :: "bool option"

definition TradingEngine_new :: TradingEngine where
  "TradingEngine_new =
     \<lparr> sentimentScore = 50, lastSentimentFetch = 0, cycleCount = 0, isRunning = None \<rparr>"

text \<open>JavaScript truthiness of a boolean property that may be \<open>undefined\<close>.\<close>

definition truthy :: "bool option \<Rightarrow> bool" where
  "truthy v = (case v of None \<Rightarrow> False | Some b \<Rightarrow> b)"

definition fetchSentiment :: "TradingEngine \<Rightarrow> world \<Rightarrow> int \<times> TradingEngine \<times> world" where
  "fetchSentiment eng w =
     (case Date_now w of (now, w1) \<Rightarrow>
        if now - lastSentimentFetch eng < SENTIMENT_FETCH_COOLDOWN_MS
        then (sentimentScore eng, eng, w1)
        else (case sentimentRequest w1 of
                (Some v, w2) \<Rightarrow>
                  (case Date_now w2 of (now2, w3) \<Rightarrow>
                     (v, eng \<lparr> sentimentScore := v, lastSentimentFetch := now2 \<rparr>, w3))
              | (None, w2) \<Rightarrow> (sentimentScore eng, eng, w2)))"

definition getSentimentBias :: "TradingEngine \<Rightarrow> rat" where
  "getSentimentBias eng =
     (let score = sentimentScore eng in
      if score > 50 then 8/10 else if score < 30 then 3/10 else 5/10)"

definition getProfileAdjustedAmount ::
  "config \<Rightarrow> WalletManager \<Rightarrow> wallet \<Rightarrow> bool \<Rightarrow> TradingEngine \<Rightarrow> world \<Rightarrow> int \<times> TradingEngine \<times> world" where
  "getProfileAdjustedAmount cfg wm wal isBuy eng w =
     (case (if behaviorProfile cfg = ''whale'' then ((swapAmount cfg * 5, 5::int), w)
            else if behaviorProfile cfg = ''mixed''
            then (case random w of (r, w1) \<Rightarrow> ((swapAmount cfg * (if r < 3/10 then 3 else 1), 3), w1))
            else ((swapAmount cfg, 2), w)) of
        ((amount1, cap1), w1) \<Rightarrow>
     (case (if getPersonality wm (keypair wal) = ''hodler'' \<and> isBuy
            then ((amount1 * 2, max cap1 4), eng, w1)
            else if getPersonality wm (keypair wal) = ''momentum''
            then (case fetchSentiment eng w1 of (score, eng1, w2) \<Rightarrow>
                    ((amount1 * \<lfloor>of_int score / (50::rat)\<rfloor>, max cap1 4), eng1, w2))
            else ((amount1, cap1), eng, w1)) of
        ((amount2, cap2), eng2, w2) \<Rightarrow>
     (if \<not> isBuy
      then (case getCurrentMemeBalance w2 of (tokens, w3) \<Rightarrow> (tokens, eng2, w3))
      else (let maxAmount = swapAmount cfg * cap2
            in (if amount2 < maxAmount then amount2 else maxAmount, eng2, w2)))))"

definition getAdaptiveAmount :: "config \<Rightarrow> int \<Rightarrow> world \<Rightarrow> int \<times> world" where
  "getAdaptiveAmount cfg baseAmount w =
     (case fetchVolatility w of (vol, w1) \<Rightarrow>
        let amount1 = (if vol > volThreshold cfg then trunc_div (baseAmount * 5) 10
                       else if vol < 1/100 then trunc_div (baseAmount * 15) 10
                       else baseAmount)
        in if useBirdeye cfg
           then (case getMarketData_liquidity w1 of (liq, w2) \<Rightarrow>
                   let liquidityRatio = liq / 10000
                   in (if liquidityRatio < 1 then trunc_div (amount1 * 5) 10
                       else if liquidityRatio > 10 then trunc_div (amount1 * 12) 10
                       else amount1, w2))
           else (amount1, w1))"

text \<open>One call of the trade execution library: \<open>trader.buy\<close> is given the amount in
  whole SOL (\<open>amount.div(LAMPORTS_PER_SOL)\<close>), \<open>trader.sell\<close> the token amount.\<close>

definition tradeCall :: "bool \<Rightarrow> int \<Rightarrow> world \<Rightarrow> trade_reply \<times> world" where
  "tradeCall isBuy amount w =
     (trader w (n_trades w),
      w \<lparr> n_trades := Suc (n_trades w),
          events := events w @ [if isBuy then TradeBuy (trunc_div amount LAMPORTS_PER_SOL)
                                else TradeSell amount] \<rparr>)"

definition maxRetries :: nat where
  "maxRetries = 3"

text \<open>The loop of \<open>performSingleSwap\<close>, from a given attempt on. A loop that ends without
  a \<open>return\<close> yields \<open>undefined\<close>, which the callers read as false.\<close>

function attemptSwap :: "nat \<Rightarrow> bool \<Rightarrow> int \<Rightarrow> world \<Rightarrow> (error + bool) \<times> world" where
  "attemptSwap attempt isBuy amount w =
     (if attempt < maxRetries
      then (case tradeCall isBuy amount w of
              (Sig sig, w1) \<Rightarrow> (Inr (sig \<noteq> []), w1)
            | (Rejects, w1) \<Rightarrow>
                if attempt = maxRetries - 1 then (Inl TradeError, w1)
                else attemptSwap (Suc attempt) isBuy amount (delay (2 ^ attempt * 1000) w1))
      else (Inr False, w))"
  by pat_completeness auto
termination
  by (relation "measure (\<lambda>(attempt, isBuy, amount, w). maxRetries - attempt)") auto

declare attemptSwap.simps [simp del]

definition performSingleSwap :: "bool \<Rightarrow> int \<Rightarrow> world \<Rightarrow> (error + bool) \<times> world" where
  "performSingleSwap isBuy amount w = attemptSwap 0 isBuy amount w"

text \<open>The first lines of \<open>twapSwap\<close>: the array \<open>parts\<close>. \<open>new BN(twapParts)\<close> keeps the
  whole part of the number; dividing by a zero BN fails an assertion, and \<open>Array(n)\<close>
  throws a RangeError unless \<open>n\<close> is a whole number that is not negative.\<close>

definition twapSplit :: "rat \<Rightarrow> int \<Rightarrow> error + int list" where
  "twapSplit nparts amount =
     (if - 1 < nparts \<and> nparts < 1 then Inl AssertionError
      else if nparts < 0 \<or> of_int \<lfloor>nparts\<rfloor> \<noteq> nparts then Inl RangeError
      else
        let partAmount = trunc_div amount \<lfloor>nparts\<rfloor>;
            remainder = trunc_mod amount \<lfloor>nparts\<rfloor>;
            parts = replicate (nat \<lfloor>nparts\<rfloor>) partAmount
        in Inr (parts [0 := parts ! 0 + remainder]))"

text \<open>The loop of \<open>twapSwap\<close> from index \<open>i\<close> on. The exception of
  \<open>performSingleSwap\<close> is not caught here.\<close>

function twapLoop ::
  "config \<Rightarrow> TradingEngine \<Rightarrow> bool \<Rightarrow> int list \<Rightarrow> nat \<Rightarrow> bool \<Rightarrow> world \<Rightarrow> (error + bool) \<times> world" where
  "twapLoop cfg eng isBuy parts i anySuccess w =
     (if i < length parts
      then
        if \<not> truthy (isRunning eng) then (Inr anySuccess, w)
        else (case getAdaptiveAmount cfg (parts ! i) w of
                (part, w1) \<Rightarrow>
                  if part \<le> 0 then twapLoop cfg eng isBuy parts (Suc i) anySuccess w1
                  else (case BN_toNumber (trunc_div part LAMPORTS_PER_SOL) of
                          Inl err \<Rightarrow> (Inl err, w1)
                        | Inr logged \<Rightarrow>
                            (case performSingleSwap isBuy part w1 of
                               (Inl err, w2) \<Rightarrow> (Inl err, w2)
                             | (Inr success, w2) \<Rightarrow>
                                 if \<not> success then (Inr anySuccess, w2)
                                 else if i < length parts - 1
                                 then (case random w2 of
                                         (r, w3) \<Rightarrow>
                                           twapLoop cfg eng isBuy parts (Suc i) True
                                             (delay (r * twapMaxDelay cfg) w3))
                                 else twapLoop cfg eng isBuy parts (Suc i) True w2)))
      else (Inr anySuccess, w))"
  by pat_completeness auto
termination
  apply (relation "measure (\<lambda>(cfg, eng, isBuy, parts, i, anySuccess, w). length parts - i)")
  apply simp_all
  done

declare twapLoop.simps [simp del]

definition twapSwap ::
  "config \<Rightarrow> TradingEngine \<Rightarrow> bool \<Rightarrow> int \<Rightarrow> world \<Rightarrow> (error + bool) \<times> world" where
  "twapSwap cfg eng isBuy amount w =
     (case twapSplit (twapParts cfg) amount of
        Inl err \<Rightarrow> (Inl err, w)
      | Inr parts \<Rightarrow> twapLoop cfg eng isBuy parts 0 False w)"

text \<open>The expressions of \<open>performSwap\<close>. \<open>(cycleCount + 1) / rampCycles\<close> is Infinity
  when \<open>rampCycles\<close> is 0.\<close>

definition partialSellAmount :: "config \<Rightarrow> rat \<Rightarrow> int \<Rightarrow> int" where
  "partialSellAmount cfg r currentTokens =
     (let pct = partialSellMin cfg + r * (partialSellMax cfg - partialSellMin cfg);
          pctBigInt = \<lfloor>pct * 100\<rfloor>
      in trunc_div (currentTokens * pctBigInt) 100)"

definition rampFactor :: "config \<Rightarrow> TradingEngine \<Rightarrow> rat" where
  "rampFactor cfg eng =
     (if rampCycles cfg = 0 then 1
      else min 1 ((of_nat (cycleCount eng) + 1) / rampCycles cfg))"

definition rampedAmount :: "config \<Rightarrow> TradingEngine \<Rightarrow> int \<Rightarrow> int" where
  "rampedAmount cfg eng adjustedAmount =
     trunc_div (adjustedAmount * \<lfloor>rampFactor cfg eng * 100\<rfloor>) 100"

definition useTwap :: "bool \<Rightarrow> int \<Rightarrow> error + bool" where
  "useTwap isBuy finalAmount =
     (if isBuy
      then bind_err (BN_toNumber (trunc_div finalAmount LAMPORTS_PER_SOL)) (\<lambda>sol. Inr (sol > 5/1000))
      else bind_err (BN_toNumber finalAmount) (\<lambda>tokens. Inr (tokens > 1000000)))"

text \<open>Lines 311 to 314 of \<open>performSwap\<close>: the profile-adjusted amount, the market
  adjustment and the ramp.\<close>

definition sizeSwap ::
  "config \<Rightarrow> WalletManager \<Rightarrow> bool \<Rightarrow> wallet \<Rightarrow> TradingEngine \<Rightarrow> world
     \<Rightarrow> int \<times> TradingEngine \<times> world" where
  "sizeSwap cfg wm isBuy wal eng w =
     (case getProfileAdjustedAmount cfg wm wal isBuy eng w of (baseAmount, eng2, w2) \<Rightarrow>
      case getAdaptiveAmount cfg baseAmount w2 of (adjustedAmount, w3) \<Rightarrow>
        (rampedAmount cfg eng2 adjustedAmount, eng2, w3))"

text \<open>Lines 335 to 340 of \<open>performSwap\<close>: the choice between the split and the single
  execution.\<close>

definition executeSwap ::
  "config \<Rightarrow> TradingEngine \<Rightarrow> bool \<Rightarrow> int \<Rightarrow> world \<Rightarrow> (error + bool) \<times> world" where
  "executeSwap cfg eng isBuy finalAmount w =
     (case useTwap isBuy finalAmount of
        Inl err \<Rightarrow> (Inl err, w)
      | Inr twap \<Rightarrow>
          if twap then twapSwap cfg eng isBuy finalAmount w
          else performSingleSwap isBuy finalAmount w)"

definition performSwap ::
  "config \<Rightarrow> WalletManager \<Rightarrow> bool \<Rightarrow> wallet \<Rightarrow> TradingEngine \<Rightarrow> world
     \<Rightarrow> (error + bool) \<times> TradingEngine \<times> world" where
  "performSwap cfg wm isBuy wal eng w =
     (case fetchSentiment eng w of (score, eng1, w1) \<Rightarrow>
      if \<not> isBuy \<and> partialSellEnabled cfg
      then (case getCurrentMemeBalance w1 of (currentTokens, w2) \<Rightarrow>
              if currentTokens < MIN_MEME_TOKENS then (Inr False, eng1, w2)
              else (case random w2 of (r, w3) \<Rightarrow>
                      (case performSingleSwap False (partialSellAmount cfg r currentTokens) w3 of
                         (res, w4) \<Rightarrow> (res, eng1, w4))))
      else
        (case sizeSwap cfg wm isBuy wal eng1 w1 of (finalAmount, eng2, w3) \<Rightarrow>
         if finalAmount \<le> 0 then (Inr False, eng2, w3)
         else
           (case (if isBuy then BN_toNumber (trunc_div finalAmount LAMPORTS_PER_SOL) else Inr 0) of
              Inl err \<Rightarrow> (Inl err, eng2, w3)
            | Inr amountInSol \<Rightarrow>
                (case checkMarketConditions_safe w3 of (safe, w4) \<Rightarrow>
                 if \<not> safe then (Inr False, eng2, w4)
                 else
                   (case (if getPersonality wm (keypair wal) = ''hodler'' \<and> isBuy
                          then (case random w4 of (r, w5) \<Rightarrow> (r < 3/10, w5))
                          else (False, w4)) of
                      (hodl, w5) \<Rightarrow>
                        if hodl then (Inr True, eng2, w5)
                        else (case executeSwap cfg eng2 isBuy finalAmount w5 of
                                (res, w6) \<Rightarrow> (res, eng2, w6)))))))"

text \<open>\<open>Array(n)\<close> needs a whole number from 0 to 2^32 - 1.\<close>

definition Array_length :: "rat \<Rightarrow> error + nat" where
  "Array_length n =
     (if 0 \<le> n \<and> n < 2 ^ 32 \<and> of_int \<lfloor>n\<rfloor> = n then Inr (nat \<lfloor>n\<rfloor>) else Inl RangeError)"

definition isBuyFirst :: "config \<Rightarrow> WalletManager \<Rightarrow> wallet \<Rightarrow> TradingEngine \<Rightarrow> world \<Rightarrow> bool \<times> world" where
  "isBuyFirst cfg wm wal eng w =
     (let sentimentBias = getSentimentBias eng;
          personality = getPersonality wm (keypair wal);
          prob0 = buyProb cfg * sentimentBias;
          prob = (if personality = ''hodler'' then min (9/10) (prob0 * (15/10))
                  else if personality = ''flipper'' then 1/2
                  else if personality = ''momentum'' then min 1 (prob0 * (12/10))
                  else prob0)
      in case random w of (r, w1) \<Rightarrow> (r < prob, w1))"

text \<open>\<open>Array.from({length: n}, () => Math.random() < buyProb)\<close>: \<open>k\<close> draws in order.\<close>

fun randomActions :: "rat \<Rightarrow> nat \<Rightarrow> world \<Rightarrow> bool list \<times> world" where
  "randomActions p 0 w = ([], w)"
| "randomActions p (Suc k) w =
     (case random w of (r, w1) \<Rightarrow>
      case randomActions p k w1 of (rest, w2) \<Rightarrow> ((r < p) # rest, w2))"

definition getTradeActions ::
  "config \<Rightarrow> WalletManager \<Rightarrow> wallet \<Rightarrow> TradingEngine \<Rightarrow> world \<Rightarrow> (error + bool list) \<times> world" where
  "getTradeActions cfg wm wal eng w =
     (let n = numActionsPerCycle cfg in
      if tradeMode cfg = ''buy_only''
      then (bind_err (Array_length n) (\<lambda>k. Inr (replicate k True)), w)
      else if tradeMode cfg = ''sell_only''
      then (bind_err (Array_length n) (\<lambda>k. Inr (replicate k False)), w)
      else if tradeMode cfg = ''buy_first''
      then (bind_err (Array_length (n - 1)) (\<lambda>k. Inr (True # replicate k False)), w)
      else if tradeMode cfg = ''sell_first''
      then (bind_err (Array_length (n - 1)) (\<lambda>k. Inr (False # replicate k True)), w)
      else if tradeMode cfg = ''random''
      then (case randomActions (buyProb cfg) (nat \<lfloor>n\<rfloor>) w of (actions, w1) \<Rightarrow> (Inr actions, w1))
      else (case isBuyFirst cfg wm wal eng w of
              (buyFirst, w1) \<Rightarrow>
                (Inr (map (\<lambda>i. if even i then buyFirst else \<not> buyFirst) [0 ..< nat \<lceil>n\<rceil>]), w1)))"

text \<open>\<open>markWalletUsed\<close> of the wallet manager.\<close>

definition markWalletUsed :: "wallet \<Rightarrow> WalletManager \<Rightarrow> world \<Rightarrow> WalletManager \<times> world" where
  "markWalletUsed wal wm w =
     (case Date_now w of (now, w1) \<Rightarrow>
        (wm \<lparr> walletCooldowns := (walletCooldowns wm) (keypair wal \<mapsto> now),
              walletTradeCount := (walletTradeCount wm)
                 (keypair wal \<mapsto> (case walletTradeCount wm (keypair wal) of None \<Rightarrow> 0 | Some c \<Rightarrow> c) + 1) \<rparr>,
         w1))"

record cycle_result =
  success :: bool
  volume :: rat

text \<open>The loop over the actions of \<open>processWalletCycle\<close>. An exception leaves the loop
  with the state as it is at that point.\<close>

fun processActions ::
  "config \<Rightarrow> WalletManager \<Rightarrow> wallet \<Rightarrow> bool list \<Rightarrow> rat \<Rightarrow> TradingEngine \<Rightarrow> CircuitBreaker \<Rightarrow> world
     \<Rightarrow> (error + rat) \<times> TradingEngine \<times> CircuitBreaker \<times> world" where
  "processActions cfg wm wal [] cycleVolume eng cb w = (Inr cycleVolume, eng, cb, w)"
| "processActions cfg wm wal (isBuy # rest) cycleVolume eng cb w =
     (case (if \<not> isBuy then (case getCurrentMemeBalance w of (tokens, w0) \<Rightarrow> (tokens < MIN_MEME_TOKENS, w0))
            else (False, w)) of
        (skip, w0) \<Rightarrow>
          if skip then processActions cfg wm wal rest cycleVolume eng cb w0
          else
            (case getBalance w0 of
               (Inl err, w1) \<Rightarrow> (Inl err, eng, cb, w1)
             | (Inr solBefore, w1) \<Rightarrow>
                 (case performSwap cfg wm isBuy wal eng w1 of
                    (Inl err, eng2, w2) \<Rightarrow> (Inl err, eng2, cb, w2)
                  | (Inr ok, eng2, w2) \<Rightarrow>
                      (case (if ok
                             then (case getBalance w2 of
                                     (Inl err, w3) \<Rightarrow> (Inl err, cb, w3)
                                   | (Inr solAfter, w3) \<Rightarrow>
                                       (let solDelta = (if isBuy then solBefore - solAfter
                                                        else solAfter - solBefore)
                                        in case BN_toNumber (trunc_div solDelta LAMPORTS_PER_SOL) of
                                             Inl err \<Rightarrow> (Inl err, cb, w3)
                                           | Inr v \<Rightarrow> (Inr (cycleVolume + v),
                                                        recordTradeResult cfg True cb, w3)))
                             else (Inr cycleVolume, recordTradeResult cfg False cb, w2)) of
                         (Inl err, cb3, w3) \<Rightarrow> (Inl err, eng2, cb3, w3)
                       | (Inr vol3, cb3, w3) \<Rightarrow>
                           (case random w3 of
                              (r, w4) \<Rightarrow>
                                processActions cfg wm wal rest vol3 eng2 cb3
                                  (delay (getJitteredValue r (baseDelayMs cfg) (jitterPct cfg)) w4))))))"

definition processWalletCycle ::
  "config \<Rightarrow> wallet \<Rightarrow> WalletManager \<Rightarrow> TradingEngine \<Rightarrow> CircuitBreaker \<Rightarrow> world
     \<Rightarrow> cycle_result \<times> WalletManager \<times> TradingEngine \<times> CircuitBreaker \<times> world" where
  "processWalletCycle cfg wal wm eng cb w =
     (case getBalance w of
        (Inl err, w1) \<Rightarrow>
          (\<lparr> success = False, volume = 0 \<rparr>, wm, eng, recordTradeResult cfg False cb, w1)
      | (Inr balance, w1) \<Rightarrow>
          if balance < 10000000 then (\<lparr> success = False, volume = 0 \<rparr>, wm, eng, cb, w1)
          else
            (case getTradeActions cfg wm wal eng w1 of
               (Inl err, w2) \<Rightarrow>
                 (\<lparr> success = False, volume = 0 \<rparr>, wm, eng, recordTradeResult cfg False cb, w2)
             | (Inr actions, w2) \<Rightarrow>
                 (case processActions cfg wm wal actions 0 eng cb w2 of
                    (Inl err, eng3, cb3, w3) \<Rightarrow>
                      (\<lparr> success = False, volume = 0 \<rparr>, wm, eng3, recordTradeResult cfg False cb3, w3)
                  | (Inr cycleVolume, eng3, cb3, w3) \<Rightarrow>
                      (case markWalletUsed wal wm w3 of
                         (wm4, w4) \<Rightarrow>
                           (\<lparr> success = True, volume = cycleVolume \<rparr>, wm4, eng3, cb3, w4)))))"

section \<open>WalletManager: batch selection (src/unnamed/part_002)\<close>

definition WalletManager_new :: "bool \<Rightarrow> WalletManager" where
  "WalletManager_new sink =
     \<lparr> walletData = [], activeWallets = [], walletCooldowns = Map.empty,
       walletTradeCount = Map.empty, walletPersonalities = Map.empty, hasSinkKeypair = sink \<rparr>"

definition getWalletCooldown :: "config \<Rightarrow> WalletManager \<Rightarrow> string \<Rightarrow> world \<Rightarrow> int \<times> world" where
  "getWalletCooldown cfg wm walletKey w =
     (let tradeCount = (case walletTradeCount wm walletKey of None \<Rightarrow> 0 | Some c \<Rightarrow> c);
          cooldownMultiplier = 1 + of_nat (tradeCount mod 5) * (2/10)
      in case random w of
           (r, w1) \<Rightarrow>
             (let baseCooldown = minWalletCooldownMs cfg
                                   + r * (maxWalletCooldownMs cfg - minWalletCooldownMs cfg)
              in (\<lfloor>baseCooldown * cooldownMultiplier\<rfloor>, w1)))"

definition cleanupOldCooldowns :: "int \<Rightarrow> WalletManager \<Rightarrow> world \<Rightarrow> WalletManager \<times> world" where
  "cleanupOldCooldowns now wm w =
     (let kept = (\<lambda>key. case walletCooldowns wm key of
                           None \<Rightarrow> None
                         | Some timestamp \<Rightarrow>
                             if now - timestamp > MAX_COOLDOWN_AGE_MS then None else Some timestamp)
      in case random w of
           (r, w1) \<Rightarrow>
             (wm \<lparr> walletCooldowns := kept,
                   walletTradeCount :=
                     (if r < 1/100
                      then (\<lambda>key. case walletTradeCount wm key of
                                     None \<Rightarrow> None
                                   | Some c \<Rightarrow> Some (if c > 1000 then 1000 else c))
                      else walletTradeCount wm) \<rparr>, w1))"

text \<open>The \<open>filter\<close> of \<open>loadActiveBatch\<close>: one cooldown, with its own random draw, per
  wallet, in the order of \<open>walletData\<close>.\<close>

fun filterReady ::
  "config \<Rightarrow> WalletManager \<Rightarrow> int \<Rightarrow> wallet_data list \<Rightarrow> world \<Rightarrow> wallet_data list \<times> world" where
  "filterReady cfg wm now [] w = ([], w)"
| "filterReady cfg wm now (x # xs) w =
     (let lastTrade = (case walletCooldowns wm (pubkey x) of None \<Rightarrow> 0 | Some t \<Rightarrow> t)
      in case getWalletCooldown cfg wm (pubkey x) w of
           (cooldown, w1) \<Rightarrow>
             (case filterReady cfg wm now xs w1 of
                (rest, w2) \<Rightarrow> (if now - lastTrade \<ge> cooldown then x # rest else rest, w2)))"

text \<open>\<open>shuffleArray\<close>, for the indices from \<open>i\<close> down to 1. A draw of \<open>Math.random\<close> is
  in [0, 1), so that \<open>j \<le> i\<close>; for any other draw the model leaves the array as it is.\<close>

fun shuffleFrom :: "nat \<Rightarrow> 'a list \<Rightarrow> world \<Rightarrow> 'a list \<times> world" where
  "shuffleFrom 0 xs w = (xs, w)"
| "shuffleFrom (Suc i) xs w =
     (case random w of
        (r, w1) \<Rightarrow>
          (let j = nat \<lfloor>r * (of_nat (Suc i) + 1)\<rfloor>
           in shuffleFrom i
                (if j < length xs \<and> Suc i < length xs
                 then (xs [Suc i := xs ! j]) [j := xs ! Suc i] else xs) w1))"

definition shuffleArray :: "'a list \<Rightarrow> world \<Rightarrow> 'a list \<times> world" where
  "shuffleArray xs w = shuffleFrom (length xs - 1) xs w"

text \<open>\<open>xs.slice(0, e)\<close>: the end is truncated to a whole number, and a negative end
  counts from the end of the array.\<close>

definition slice0 :: "rat \<Rightarrow> 'a list \<Rightarrow> 'a list" where
  "slice0 e xs = (if 0 \<le> e then take (nat \<lfloor>e\<rfloor>) xs else take (length xs - nat (- \<lceil>e\<rceil>)) xs)"

definition toActiveWallet :: "wallet_data \<Rightarrow> wallet" where
  "toActiveWallet x = \<lparr> keypair = pubkey x, name = (if wname x = [] then take 6 (pubkey x) else wname x) \<rparr>"

text \<open>\<open>loadActiveBatch\<close>: the value it returns, and the wallet manager after it. When no
  wallet is ready it returns the empty array before \<open>activeWallets\<close> is assigned.\<close>

definition loadActiveBatch ::
  "config \<Rightarrow> WalletManager \<Rightarrow> world \<Rightarrow> wallet list \<times> WalletManager \<times> world" where
  "loadActiveBatch cfg wm w =
     (case Date_now w of (now, w1) \<Rightarrow>
      case cleanupOldCooldowns now wm w1 of (wm2, w2) \<Rightarrow>
      case filterReady cfg wm2 now (walletData wm2) w2 of (ready, w3) \<Rightarrow>
        if ready = [] then ([], wm2, w3)
        else
          (case (if shuffleWallets cfg then shuffleArray ready w3 else (ready, w3)) of
             (shuffled, w4) \<Rightarrow>
               (let selected = slice0 (batchSize cfg) shuffled;
                    wm5 = wm2 \<lparr> activeWallets := map toActiveWallet selected \<rparr>
                in (activeWallets wm5, wm5, w4))))"

section \<open>VolumeBoosterBot: the main loop (src/src/VolumeBoosterBot.js)\<close>

record VolumeBoosterBot =
  walletManager :: WalletManager
  tradingEngine :: TradingEngine
  circuitBreaker :: CircuitBreaker
  botRunning :: bool       \<comment> \<open>\<open>this.isRunning\<close> of the bot\<close>
  botCycleCount :: nat     \<comment> \<open>\<open>this.cycleCount\<close> of the bot\<close>
  batchNum :: nat          \<comment> \<open>the local variable of \<open>runLoop\<close>\<close>

text \<open>The bot as its constructor builds it, with the wallets loaded and \<open>isRunning\<close> set
  by \<open>init\<close>.\<close>

definition VolumeBoosterBot_init :: "WalletManager \<Rightarrow> int \<Rightarrow> VolumeBoosterBot" where
  "VolumeBoosterBot_init wm sinkBalance =
     \<lparr> walletManager = wm, tradingEngine = TradingEngine_new,
       circuitBreaker = (if hasSinkKeypair wm
                         then CircuitBreaker_new \<lparr> initialSinkBalance := sinkBalance \<rparr>
                         else CircuitBreaker_new),
       botRunning = True, botCycleCount = 0, batchNum = 0 \<rparr>"

text \<open>\<open>Promise.allSettled\<close> over \<open>processWalletCycle\<close> of every wallet of the batch. The
  calls interleave at their awaits; the model runs them one after the other, in the
  order of the batch.\<close>

fun processBatch ::
  "config \<Rightarrow> wallet list \<Rightarrow> WalletManager \<Rightarrow> TradingEngine \<Rightarrow> CircuitBreaker \<Rightarrow> world
     \<Rightarrow> cycle_result list \<times> WalletManager \<times> TradingEngine \<times> CircuitBreaker \<times> world" where
  "processBatch cfg [] wm eng cb w = ([], wm, eng, cb, w)"
| "processBatch cfg (wal # rest) wm eng cb w =
     (case processWalletCycle cfg wal wm eng cb w of
        (res, wm1, eng1, cb1, w1) \<Rightarrow>
          (case processBatch cfg rest wm1 eng1 cb1 w1 of
             (ress, wm2, eng2, cb2, w2) \<Rightarrow> (res # ress, wm2, eng2, cb2, w2)))"

text \<open>The remainder \<open>a % b\<close> of JavaScript for \<open>a \<ge> 0\<close>; NaN when \<open>b\<close> is 0.\<close>

definition js_rem :: "nat \<Rightarrow> rat \<Rightarrow> rat option" where
  "js_rem a b = (if b = 0 then None else Some (of_nat a - \<bar>b\<bar> * of_int \<lfloor>of_nat a / \<bar>b\<bar>\<rfloor>))"

datatype loop_outcome =
    Tripped trip_reason      \<comment> \<open>the breaker tripped: \<open>stop()\<close> and \<open>process.exit(1)\<close>\<close>
  | BackedOff                \<comment> \<open>no batch: the 30 s sleep, then \<open>continue\<close>\<close>
  | Processed "wallet list"  \<comment> \<open>the wallets whose cycle was run\<close>
  | LoopError error          \<comment> \<open>the balance query of the breaker rejected\<close>

text \<open>One pass through the body of the \<open>while\<close> loop of \<open>runLoop\<close>. \<open>sinkBalance\<close> is the
  answer of the RPC node to the balance query of the breaker, if it is made. The market
  price that is fetched only to be logged, the rotation statistics and the rebalancer
  (whose code is not part of the sources) are left out.\<close>

definition runLoopBody ::
  "config \<Rightarrow> error + int \<Rightarrow> VolumeBoosterBot \<Rightarrow> world \<Rightarrow> loop_outcome \<times> VolumeBoosterBot \<times> world" where
  "runLoopBody cfg sinkBalance vb w =
     (case checkCircuitBreakers cfg sinkBalance (hasSinkKeypair (walletManager vb)) (circuitBreaker vb) of
        (Inl err, cb1) \<Rightarrow> (LoopError err, vb \<lparr> circuitBreaker := cb1 \<rparr>, w)
      | (Inr circuitCheck, cb1) \<Rightarrow>
          if tripped circuitCheck
          then (Tripped (reason circuitCheck), vb \<lparr> circuitBreaker := cb1, botRunning := False \<rparr>, w)
          else
            (case loadActiveBatch cfg (walletManager vb) w of
               (returned, wm1, w1) \<Rightarrow>
                 (let walletBatch = activeWallets wm1 in
                  if walletBatch = []
                  then (BackedOff, vb \<lparr> circuitBreaker := cb1, walletManager := wm1 \<rparr>,
                        delay 30000 w1)
                  else
                    (case processBatch cfg walletBatch wm1 (tradingEngine vb) cb1 w1 of
                       (results, wm2, eng2, cb2, w2) \<Rightarrow>
                         (let vb2 = vb \<lparr> walletManager := wm2, tradingEngine := eng2,
                                           circuitBreaker := cb2,
                                           batchNum := batchNum vb + 1,
                                           botCycleCount := botCycleCount vb + 1 \<rparr>;
                              w3 = (if js_rem (batchNum vb2) (sessionPauseMin cfg) = Some 0
                                    then (case random w2 of (r1, w2a) \<Rightarrow>
                                          case random w2a of (r2, w2b) \<Rightarrow>
                                            delay (getJitteredValue r2 (60000 * (1 + r1 * 4)) (jitterPct cfg)) w2b)
                                    else w2)
                          in case random w3 of
                               (r3, w4) \<Rightarrow>
                                 (Processed walletBatch, vb2, delay (r3 * 10000 + 5000) w4))))))"

text \<open>At most \<open>n\<close> passes of the loop \<open>while (this.isRunning)\<close>, with the outcomes in order;
  \<open>balances k\<close> is the answer to the balance query in pass \<open>k\<close>. A trip exits the process
  and an exception leaves the loop.\<close>

fun runLoop ::
  "config \<Rightarrow> (nat \<Rightarrow> error + int) \<Rightarrow> nat \<Rightarrow> nat \<Rightarrow> VolumeBoosterBot \<Rightarrow> world
     \<Rightarrow> loop_outcome list \<times> VolumeBoosterBot \<times> world" where
  "runLoop cfg balances k 0 vb w = ([], vb, w)"
| "runLoop cfg balances k (Suc n) vb w =
     (if \<not> botRunning vb then ([], vb, w)
      else (case runLoopBody cfg (balances k) vb w of
              (out, vb1, w1) \<Rightarrow>
                (case out of
                   Tripped r \<Rightarrow> ([out], vb1, w1)
                 | LoopError err \<Rightarrow> ([out], vb1, w1)
                 | _ \<Rightarrow> (case runLoop cfg balances (Suc k) n vb1 w1 of
                           (outs, vb2, w2) \<Rightarrow> (out # outs, vb2, w2)))))"

text \<open>The event a call of the trade execution library leaves in the trace.\<close>

definition tradeEvent :: "bool \<Rightarrow> int \<Rightarrow> event" where
  "tradeEvent isBuy amount =
     (if isBuy then TradeBuy (trunc_div amount LAMPORTS_PER_SOL) else TradeSell amount)"

text \<open>Two states of the engine agree on \<open>cycleCount\<close> and \<open>isRunning\<close>.\<close>

definition engine_frozen :: "TradingEngine \<Rightarrow> TradingEngine \<Rightarrow> bool" where
  "engine_frozen eng eng' = (cycleCount eng' = cycleCount eng \<and> isRunning eng' = isRunning eng)"

text \<open>The ramp in the words of the specification (section 4.2, step 6): the adjusted
  amount times \<open>min(1, (cycleIndex + 1) / rampCycles)\<close>.\<close>

definition spec_ramped_amount :: "rat \<Rightarrow> nat \<Rightarrow> int \<Rightarrow> rat" where
  "spec_ramped_amount rampCyc i adjustedAmount =
     of_int adjustedAmount * min 1 ((of_nat i + 1) / rampCyc)"

section \<open>Sample inputs\<close>

text \<open>A world in which every source gives the same answer each time: the trade
  execution library accepts every order, the wallet holds 0.02 SOL and no tokens.\<close>

definition sample_world :: world where
  "sample_world =
     \<lparr> randoms = (\<lambda>k. 0), n_random = 0,
       clock = (\<lambda>k. 1700000000000), n_clock = 0,
       trader = (\<lambda>k. Sig ''tx''), n_trades = 0,
       volatility = (\<lambda>k. 0), n_volatility = 0,
       liquidity = (\<lambda>k. 50000), n_liquidity = 0,
       marketSafe = (\<lambda>k. True), n_marketChecks = 0,
       tokenBalance = (\<lambda>k. 0), n_tokenBalance = 0,
       solBalance = (\<lambda>k. Inr 20000000), n_solBalance = 0,
       sentimentApi = (\<lambda>k. None), n_sentiment = 0,
       events = [] \<rparr>"

text \<open>The default configuration, in sell-only mode and with a ramp of two cycles; one
  wallet; and the states of the bot and of the world after the first and the second pass
  of the main loop on them.\<close>

definition demo_config :: config where
  "demo_config = default_config \<lparr> tradeMode := ''sell_only'', rampCycles := 2 \<rparr>"

definition demo_wallets :: WalletManager where
  "demo_wallets = (WalletManager_new False) \<lparr> walletData := [\<lparr> pubkey = ''W1'', wname = ''Wallet1'' \<rparr>] \<rparr>"

definition demo_wallet :: wallet where
  "demo_wallet = \<lparr> keypair = ''W1'', name = ''Wallet1'' \<rparr>"

definition demo_bot1 :: VolumeBoosterBot where
  "demo_bot1 =
     \<lparr> walletManager = demo_wallets \<lparr> activeWallets := [demo_wallet],
            walletCooldowns := [''W1'' \<mapsto> 1700000000000], walletTradeCount := [''W1'' \<mapsto> 1] \<rparr>,
       tradingEngine = TradingEngine_new,
       circuitBreaker = CircuitBreaker_new \<lparr> checkCounter := 1 \<rparr>,
       botRunning = True, botCycleCount = 1, batchNum = 1 \<rparr>"

definition demo_world1 :: world where
  "demo_world1 = sample_world \<lparr> n_random := 3, n_clock := 2, n_tokenBalance := 2,
      n_solBalance := 1, events := [Sleep 5000] \<rparr>"

definition demo_bot2 :: VolumeBoosterBot where
  "demo_bot2 =
     \<lparr> walletManager = demo_wallets \<lparr> activeWallets := [demo_wallet],
            walletCooldowns := [''W1'' \<mapsto> 1700000000000], walletTradeCount := [''W1'' \<mapsto> 2] \<rparr>,
       tradingEngine = TradingEngine_new,
       circuitBreaker = CircuitBreaker_new \<lparr> checkCounter := 2 \<rparr>,
       botRunning = True, botCycleCount = 2, batchNum = 2 \<rparr>"

definition demo_world2 :: world where
  "demo_world2 = sample_world \<lparr> n_random := 6, n_clock := 4, n_tokenBalance := 4,
      n_solBalance := 2, events := [Sleep 5000, Sleep 5000] \<rparr>"

text \<open>Between two states of the world no call of the trade execution library was made
  and nothing was appended to the trace.\<close>

definition no_trade :: "world \<Rightarrow> world \<Rightarrow> bool" where
  "no_trade w w' = (n_trades w' = n_trades w \<and> events w' = events w)"




text \<open>The sample wallet with the personality hodler.\<close>

definition hodler_wallets :: WalletManager where
  "hodler_wallets = demo_wallets \<lparr> walletPersonalities := [''W1'' \<mapsto> ''hodler''] \<rparr>"



definition flaky_trader_world :: world where
  "flaky_trader_world = sample_world \<lparr> trader := (\<lambda>k. if k < 2 then Rejects else Sig ''tx'') \<rparr>"

text \<open>The sample world with a trade execution library that accepts its first call and
  rejects every later one.\<close>

definition one_fill_world :: world where
  "one_fill_world = sample_world \<lparr> trader := (\<lambda>k. if k = 0 then Sig ''tx'' else Rejects) \<rparr>"

section \<open>Properties: configuration\<close>

lemma default_config_loaded: "validateAndLoadConfig default_env = Inr default_config"
  by (simp add: validateAndLoadConfig_def default_env_def default_config_def bind_err_def
      validateOneOf_def validateProbability_def validateNumber_def validateSolAmount_def
      validatePercentage_def validateBoolean_def TRADE_MODES_def BEHAVIOR_PROFILES_def)

lemma default_breaker_fields:
  "enableCircuitBreaker default_config" "failureRateWindow default_config = 10"
  "maxConsecutiveFailures default_config = 10" "maxFailureRate default_config = 1/2"
  "emergencyStopLoss default_config = 3/10"
  by (simp_all add: default_config_def)

lemma floor_rat_divide_numeral [simp]:
  "\<lfloor>(numeral a :: rat) / numeral b\<rfloor> = numeral a div numeral b"
  using floor_divide_of_int_eq[of "numeral a" "numeral b", where ?'a = rat] by simp

lemma floor_rat_one_divide_numeral [simp]:
  "\<lfloor>(1 :: rat) / numeral b\<rfloor> = 1 div numeral b"
  using floor_divide_of_int_eq[of 1 "numeral b", where ?'a = rat] by simp

lemma default_sizing_fields:
  "behaviorProfile default_config = ''retail''" "swapAmount default_config = 10000000"
  "volThreshold default_config = 5/10000" "useBirdeye default_config = False"
  "rampCycles default_config = 30" "partialSellEnabled default_config"
  "partialSellMin default_config = 22/100" "partialSellMax default_config = 68/100"
  "baseDelayMs default_config = 5000" "jitterPct default_config = 1/10"
  by (simp_all add: default_config_def)

lemma demo_config_fields:
  "tradeMode demo_config = ''sell_only''" "rampCycles demo_config = 2"
  "enableCircuitBreaker demo_config" "failureRateWindow demo_config = 10"
  "maxConsecutiveFailures demo_config = 10" "maxFailureRate demo_config = 1/2"
  "emergencyStopLoss demo_config = 3/10" "numActionsPerCycle demo_config = 2"
  "minWalletCooldownMs demo_config = 300000" "maxWalletCooldownMs demo_config = 1800000"
  "shuffleWallets demo_config" "batchSize demo_config = 100" "sessionPauseMin demo_config = 10"
  "baseDelayMs demo_config = 5000" "jitterPct demo_config = 1/10"
  "partialSellEnabled demo_config" "twapParts demo_config = 5"
  by (simp_all add: demo_config_def default_config_def)

lemmas world_defs = random_def Date_now_def fetchVolatility_def getMarketData_liquidity_def
  checkMarketConditions_safe_def getCurrentMemeBalance_def getBalance_def sentimentRequest_def
  delay_def

section \<open>Properties: circuit breaker\<close>

lemma of_nat_gt_floor_iff: "0 \<le> (w::rat) \<Longrightarrow> (w < of_nat n) = (nat \<lfloor>w\<rfloor> < n)"
  by (metis floor_less_iff linorder_not_less nat_less_iff of_int_of_nat_eq zero_le_floor zless_nat_conj)

lemma recordTradeResult_window:
  assumes "enableCircuitBreaker cfg" "0 \<le> failureRateWindow cfg"
  shows "recentTrades (recordTradeResult cfg s cb) =
     (if nat \<lfloor>failureRateWindow cfg\<rfloor> \<le> length (recentTrades cb)
      then tl (recentTrades cb @ [s]) else recentTrades cb @ [s])"
  using assms of_nat_gt_floor_iff[of "failureRateWindow cfg" "Suc (length (recentTrades cb))"]
  by (auto simp: recordTradeResult_def Let_def)

lemma recordOutcomes_snoc:
  "recordOutcomes cfg (outs @ [s]) cb = recordTradeResult cfg s (recordOutcomes cfg outs cb)"
  by (simp add: recordOutcomes_def)

lemma recordOutcomes_length:
  assumes "enableCircuitBreaker cfg" "0 \<le> failureRateWindow cfg"
  shows "length (recentTrades (recordOutcomes cfg outs CircuitBreaker_new)) \<le> nat \<lfloor>failureRateWindow cfg\<rfloor>"
proof (induction outs rule: rev_induct)
  case Nil
  then show ?case by (simp add: recordOutcomes_def CircuitBreaker_new_def)
next
  case (snoc s outs)
  then show ?case
    by (simp add: recordOutcomes_snoc recordTradeResult_window[OF assms])
qed

lemma recordOutcomes_window:
  assumes "enableCircuitBreaker cfg" "0 \<le> failureRateWindow cfg"
  shows "recentTrades (recordOutcomes cfg outs CircuitBreaker_new) =
         drop (length outs - nat \<lfloor>failureRateWindow cfg\<rfloor>) outs"
proof (induction outs rule: rev_induct)
  case Nil
  then show ?case by (simp add: recordOutcomes_def CircuitBreaker_new_def)
next
  case (snoc s outs)
  let ?c = "nat \<lfloor>failureRateWindow cfg\<rfloor>"
  show ?case
  proof (cases "?c \<le> length outs")
    case True
    have "tl (drop (length outs - ?c) (outs @ [s])) = drop (Suc 0) (drop (length outs - ?c) (outs @ [s]))"
      by (simp only: drop_Suc drop_0)
    also have "\<dots> = drop (Suc (length outs) - ?c) (outs @ [s])"
      using True by (simp only: drop_drop) (simp add: Suc_diff_le)
    finally have "tl (drop (length outs - ?c) outs @ [s]) = drop (Suc (length outs) - ?c) (outs @ [s])"
      by simp
    with True snoc show ?thesis
      by (simp add: recordOutcomes_snoc recordTradeResult_window[OF assms])
  next
    case False
    with snoc show ?thesis
      by (simp add: recordOutcomes_snoc recordTradeResult_window[OF assms])
  qed
qed

lemma recordOutcomes_consecutive:
  assumes "enableCircuitBreaker cfg"
  shows "consecutiveFailures (recordOutcomes cfg outs CircuitBreaker_new) =
         length (takeWhile (\<lambda>r. \<not> r) (rev outs))"
proof (induction outs rule: rev_induct)
  case Nil
  then show ?case by (simp add: recordOutcomes_def CircuitBreaker_new_def)
next
  case (snoc s outs)
  with assms show ?case
    by (simp add: recordOutcomes_snoc recordTradeResult_def Let_def)
qed

text \<open>
  Claim C2. With the breaker enabled and a non-negative \<open>failureRateWindow\<close>, in every
  state reached from a new breaker by recording outcomes: recording a success sets
  \<open>consecutiveFailures\<close> to 0 and recording a failure adds 1 to it; every outcome is
  appended to the window, and the oldest entry of the window is dropped exactly when the
  window already holds its capacity (the whole part of \<open>failureRateWindow\<close>) of entries;
  the window never holds more than \<open>failureRateWindow\<close> entries, and it is the last
  capacity-many outcomes recorded.
\<close>

theorem C2_record_outcome_window:
  assumes "enableCircuitBreaker cfg" and "0 \<le> failureRateWindow cfg"
    and "cb = recordOutcomes cfg outs CircuitBreaker_new"
  shows "consecutiveFailures (recordTradeResult cfg True cb) = 0
       \<and> consecutiveFailures (recordTradeResult cfg False cb) = consecutiveFailures cb + 1
       \<and> recentTrades (recordTradeResult cfg s cb) =
           (if nat \<lfloor>failureRateWindow cfg\<rfloor> \<le> length (recentTrades cb)
            then tl (recentTrades cb @ [s]) else recentTrades cb @ [s])
       \<and> of_nat (length (recentTrades cb)) \<le> failureRateWindow cfg
       \<and> recentTrades cb = drop (length outs - nat \<lfloor>failureRateWindow cfg\<rfloor>) outs"
proof -
  have len: "length (recentTrades cb) \<le> nat \<lfloor>failureRateWindow cfg\<rfloor>"
    using assms recordOutcomes_length by simp
  have "(of_nat (length (recentTrades cb)) :: rat) \<le> of_int \<lfloor>failureRateWindow cfg\<rfloor>"
    using len assms(2) by (simp add: le_nat_iff)
  then have "of_nat (length (recentTrades cb)) \<le> failureRateWindow cfg"
    using of_int_floor_le[of "failureRateWindow cfg"] by linarith
  then have bound: "of_nat (length (recentTrades cb)) \<le> failureRateWindow cfg" .
  have c1: "consecutiveFailures (recordTradeResult cfg True cb) = 0"
    using assms(1) by (simp add: recordTradeResult_def Let_def)
  have c2: "consecutiveFailures (recordTradeResult cfg False cb) = consecutiveFailures cb + 1"
    using assms(1) by (simp add: recordTradeResult_def Let_def)
  have c4: "recentTrades cb = drop (length outs - nat \<lfloor>failureRateWindow cfg\<rfloor>) outs"
    using assms(3) recordOutcomes_window[OF assms(1,2)] by simp
  show ?thesis
    using c1 c2 recordTradeResult_window[OF assms(1,2), of s cb] bound c4 by blast
qed

theorem C2_record_outcome_window_witness:
  "enableCircuitBreaker default_config \<and> 0 \<le> failureRateWindow default_config
   \<and> consecutiveFailures (recordTradeResult default_config False
        (recordOutcomes default_config (replicate 11 True @ [False]) CircuitBreaker_new)) = 2
   \<and> recentTrades (recordTradeResult default_config False
        (recordOutcomes default_config (replicate 11 True @ [False]) CircuitBreaker_new))
      = replicate 8 True @ [False, False]"
  using C2_record_outcome_window[of default_config
      "recordOutcomes default_config (replicate 11 True @ [False]) CircuitBreaker_new"
      "replicate 11 True @ [False]" False]
  by (simp add: default_breaker_fields numeral_eq_Suc recordOutcomes_def recordTradeResult_def
        CircuitBreaker_new_def Let_def)

lemma checkCircuitBreakers_tripped_iff:
  assumes "enableCircuitBreaker cfg"
    and "checkCircuitBreakers cfg (Inr currentBalance) hasSink cb = (Inr r, cb')"
  shows "tripped r \<longleftrightarrow>
     (of_nat (consecutiveFailures cb) \<ge> maxConsecutiveFailures cfg
      \<or> (of_nat (length (recentTrades cb)) \<ge> failureRateWindow cfg \<and> recentTrades cb \<noteq> []
          \<and> of_nat (length (filter (\<lambda>r. \<not> r) (recentTrades cb))) / of_nat (length (recentTrades cb)) * 100
              > maxFailureRate cfg)
      \<or> (hasSink \<and> initialSinkBalance cb > 0 \<and> Suc (checkCounter cb) mod 5 = 0
          \<and> of_int (trunc_div ((initialSinkBalance cb - currentBalance) * 100) (initialSinkBalance cb))
              > emergencyStopLoss cfg))"
  using assms
  by (auto simp: checkCircuitBreakers_def failureRate_def Let_def split: if_splits)

text \<open>The same comparison in the loss check: a loss of 2 per cent trips a breaker
  configured with EMERGENCY_STOP_LOSS_PCT = 30.\<close>

lemma checkCircuitBreakers_loss_units:
  "fst (checkCircuitBreakers default_config (Inr 980) True
          (CircuitBreaker_new \<lparr> initialSinkBalance := 1000, checkCounter := 4 \<rparr>))
     = Inr \<lparr> tripped = True, reason = LossReason 2 \<rparr>"
  by (simp add: checkCircuitBreakers_def default_breaker_fields CircuitBreaker_new_def
      failureRate_def trunc_div_def Let_def)

text \<open>
  Claim C1. The claim compares the failure rate, a percentage, with the configured
  percentage. The code compares it with \<open>config.maxFailureRate\<close>, which
  \<open>validatePercentage\<close> has divided by 100. With MAX_FAILURE_RATE_PCT = 50 and a full
  window of ten outcomes holding one failure (10 per cent), the check reports tripped,
  although none of the three conditions of the claim holds.
\<close>

theorem C1_failure_rate_units:
  "validateAndLoadConfig (default_env \<lparr> MAX_FAILURE_RATE_PCT := Num 50 \<rparr>) = Inr default_config
   \<and> fst (checkCircuitBreakers default_config (Inr 0) False
          (recordOutcomes default_config (False # replicate 9 True) CircuitBreaker_new))
       = Inr \<lparr> tripped = True, reason = FailureRateReason 10 \<rparr>
   \<and> \<not> spec_should_trip 10 10 50 30
          (consecutiveFailures (recordOutcomes default_config (False # replicate 9 True) CircuitBreaker_new))
          (recentTrades (recordOutcomes default_config (False # replicate 9 True) CircuitBreaker_new))
          False 0"
proof -
  have cfg: "validateAndLoadConfig (default_env \<lparr> MAX_FAILURE_RATE_PCT := Num 50 \<rparr>) = Inr default_config"
    by (simp add: validateAndLoadConfig_def default_env_def default_config_def bind_err_def
      validateOneOf_def validateProbability_def validateNumber_def validateSolAmount_def
      validatePercentage_def validateBoolean_def TRADE_MODES_def BEHAVIOR_PROFILES_def)
  have st: "recordOutcomes default_config (False # replicate 9 True) CircuitBreaker_new
     = \<lparr> consecutiveFailures = 0, recentTrades = False # replicate 9 True,
         initialSinkBalance = 0, checkCounter = 0 \<rparr>"
    by (simp add: default_breaker_fields numeral_eq_Suc recordOutcomes_def recordTradeResult_def
        CircuitBreaker_new_def Let_def)
  have chk: "fst (checkCircuitBreakers default_config (Inr 0) False
       \<lparr> consecutiveFailures = 0, recentTrades = False # replicate 9 True,
         initialSinkBalance = 0, checkCounter = 0 \<rparr>) = Inr \<lparr> tripped = True, reason = FailureRateReason 10 \<rparr>"
    by (simp add: checkCircuitBreakers_def default_breaker_fields failureRate_def)
  have sp: "\<not> spec_should_trip 10 10 50 30 0 (False # replicate 9 True) False 0"
    by (simp add: spec_should_trip_def)
  show ?thesis using cfg st chk sp by simp
qed

section \<open>Properties: single execution\<close>

lemma performSingleSwap_unrolled:
  "performSingleSwap isBuy amount w =
     (let n = n_trades w; T = tradeEvent isBuy amount in
      case trader w n of
        Sig s \<Rightarrow> (Inr (s \<noteq> []), w \<lparr> n_trades := n + 1, events := events w @ [T] \<rparr>)
      | Rejects \<Rightarrow>
         (case trader w (n + 1) of
            Sig s \<Rightarrow> (Inr (s \<noteq> []), w \<lparr> n_trades := n + 2, events := events w @ [T, Sleep 1000, T] \<rparr>)
          | Rejects \<Rightarrow>
             (case trader w (n + 2) of
                Sig s \<Rightarrow> (Inr (s \<noteq> []),
                   w \<lparr> n_trades := n + 3, events := events w @ [T, Sleep 1000, T, Sleep 2000, T] \<rparr>)
              | Rejects \<Rightarrow> (Inl TradeError,
                   w \<lparr> n_trades := n + 3, events := events w @ [T, Sleep 1000, T, Sleep 2000, T] \<rparr>))))"
  unfolding performSingleSwap_def
  apply (subst attemptSwap.simps)
  apply (subst attemptSwap.simps)
  apply (subst attemptSwap.simps)
  apply (simp add: maxRetries_def tradeCall_def delay_def tradeEvent_def Let_def
      split: trade_reply.splits)
  done

text \<open>
  Claim C5. \<open>performSingleSwap\<close> calls the trade execution library at least once and at
  most three times; between two consecutive calls it sleeps 1000 ms after the first and
  2000 ms after the second; every call before the last one was rejected, so a call that
  is answered ends the operation at once with the truthiness of the signature; and the
  operation throws exactly when the third call is rejected too.
\<close>

theorem C5_single_swap_retries:
  "case performSingleSwap isBuy amount w of
     (res, w') \<Rightarrow>
       (let calls = n_trades w' - n_trades w; T = tradeEvent isBuy amount in
        1 \<le> calls \<and> calls \<le> 3
        \<and> events w' = events w @ take (2 * calls - 1) [T, Sleep 1000, T, Sleep 2000, T]
        \<and> (\<forall>k < calls - 1. trader w (n_trades w + k) = Rejects)
        \<and> (case res of
              Inl err \<Rightarrow> err = TradeError \<and> calls = 3 \<and> trader w (n_trades w + 2) = Rejects
            | Inr b \<Rightarrow> (\<exists>s. trader w (n_trades w + (calls - 1)) = Sig s \<and> b = (s \<noteq> []))))"
  by (auto simp: performSingleSwap_unrolled Let_def less_Suc_eq numeral_2_eq_2 numeral_3_eq_3
      split: trade_reply.splits)

theorem C5_single_swap_retries_witness:
  "fst (performSingleSwap True 2000000000 flaky_trader_world) = Inr True
   \<and> events (snd (performSingleSwap True 2000000000 flaky_trader_world))
       = [TradeBuy 2, Sleep 1000, TradeBuy 2, Sleep 2000, TradeBuy 2]"
  using C5_single_swap_retries[where isBuy = True and amount = 2000000000
      and w = flaky_trader_world]
  by (simp add: performSingleSwap_unrolled flaky_trader_world_def sample_world_def tradeEvent_def
      trunc_div_def LAMPORTS_PER_SOL_def Let_def)

section \<open>Properties: the split of a large amount\<close>

lemma trunc_div_nonneg: "0 \<le> a \<Longrightarrow> 0 < b \<Longrightarrow> trunc_div a b = a div b"
  by (simp add: trunc_div_def sgn_if)

lemma trunc_mod_nonneg: "0 \<le> a \<Longrightarrow> 0 < b \<Longrightarrow> trunc_mod a b = a mod b"
  by (simp add: trunc_mod_def sgn_if)

lemma trunc_div_mod: "b \<noteq> 0 \<Longrightarrow> trunc_div a b * b + trunc_mod a b = a"
proof -
  assume "b \<noteq> 0"
  have "\<bar>a\<bar> div \<bar>b\<bar> * \<bar>b\<bar> + \<bar>a\<bar> mod \<bar>b\<bar> = \<bar>a\<bar>" by simp
  then have "sgn a * (\<bar>a\<bar> div \<bar>b\<bar> * \<bar>b\<bar> + \<bar>a\<bar> mod \<bar>b\<bar>) = sgn a * \<bar>a\<bar>" by simp
  moreover have "sgn b * b = \<bar>b\<bar>" by (simp add: sgn_if)
  ultimately show ?thesis
    unfolding trunc_div_def trunc_mod_def
    by (metis (no_types, opaque_lifting) distrib_left mult.assoc mult.commute mult_sgn_abs)
qed

lemma twapSplit_of_nat:
  assumes "1 \<le> n"
  shows "twapSplit (of_nat n) amount =
     Inr ((trunc_div amount (int n) + trunc_mod amount (int n)) # replicate (n - 1) (trunc_div amount (int n)))"
proof -
  have "\<not> ((of_nat n :: rat) < 1)" using assms by simp
  then have "twapSplit (of_nat n) amount =
      Inr ((replicate n (trunc_div amount (int n)))
             [0 := replicate n (trunc_div amount (int n)) ! 0 + trunc_mod amount (int n)])"
    by (simp add: twapSplit_def Let_def)
  moreover obtain m where n: "n = Suc m" using assms by (cases n) auto
  ultimately show ?thesis by simp
qed

lemma sum_list_replicate_int: "sum_list (replicate k (q::int)) = int k * q"
  by (induction k) (simp_all add: algebra_simps)

lemma twapSplit_sum:
  assumes "1 \<le> n"
  shows "sum_list ((trunc_div amount (int n) + trunc_mod amount (int n)) # replicate (n - 1) (trunc_div amount (int n))) = amount"
proof -
  obtain m where n: "n = Suc m" using assms by (cases n) auto
  have "trunc_div amount (int n) * int n + trunc_mod amount (int n) = amount"
    using assms by (intro trunc_div_mod) simp
  then show ?thesis
    by (simp add: n sum_list_replicate_int algebra_simps)
qed

lemma useTwap_sell: "\<bar>a\<bar> < 2 ^ 53 \<Longrightarrow> useTwap False a = Inr (1000000 < a)"
  by (simp add: useTwap_def BN_toNumber_def bind_err_def)

lemma useTwap_buy:
  assumes "0 \<le> a" "a < 2 ^ 53"
  shows "useTwap True a = Inr (1000000000 \<le> a)"
proof -
  have d: "trunc_div a LAMPORTS_PER_SOL = a div 1000000000"
    using assms by (simp add: trunc_div_nonneg LAMPORTS_PER_SOL_def)
  have "0 \<le> a div 1000000000" using assms by (simp add: div_int_pos_iff)
  moreover have "a div 1000000000 \<le> a" using zdiv_mono2[of a 1 1000000000] assms by simp
  ultimately have "0 \<le> a div 1000000000" "a div 1000000000 \<le> a" by simp_all
  then have r: "\<bar>a div 1000000000\<bar> < 2 ^ 53" using assms by linarith
  have "(5 / 1000 < (of_int (a div 1000000000) :: rat)) = (1 \<le> a div 1000000000)"
  proof
    assume "5 / 1000 < (of_int (a div 1000000000) :: rat)"
    then have "(0::rat) < of_int (a div 1000000000)" by linarith
    then show "1 \<le> a div 1000000000" by simp
  next
    assume "1 \<le> a div 1000000000"
    then have "(1::rat) \<le> of_int (a div 1000000000)" by simp
    then show "5 / 1000 < (of_int (a div 1000000000) :: rat)" by linarith
  qed
  also have "\<dots> = (0 < a div 1000000000)" by linarith
  also have "\<dots> = (1000000000 \<le> a)" by (rule pos_imp_zdiv_pos_iff) simp
  finally show ?thesis using r d
    by (simp add: useTwap_def BN_toNumber_def bind_err_def)
qed

text \<open>
  Claim C3. With \<open>twapParts\<close> a whole number \<open>n \<ge> 1\<close> and an amount that is not
  negative, the array \<open>parts\<close> that \<open>twapSwap\<close> builds has exactly \<open>n\<close> shares, their sum
  is the amount, the first share is \<open>amount div n + amount mod n\<close> and every other share
  is \<open>amount div n\<close>; \<open>twapSwap\<close> is its loop on that array. The execution step of
  \<open>performSwap\<close> is \<open>twapSwap\<close> when the amount is above the threshold of its side
  (\<open>useTwap\<close> is true) and one call of \<open>performSingleSwap\<close> with the whole amount when it
  is not. The thresholds: a sell is split above 1000000 token units, a buy from one whole
  SOL on (the whole-SOL part of the amount is compared with 0.005). The amount 103 in
  5 parts gives 23, 20, 20, 20, 20.
\<close>

theorem C3_twap_split:
  assumes "1 \<le> n" and "twapParts cfg = of_nat n" and "0 \<le> amount"
  shows "twapSplit (twapParts cfg) amount
           = Inr ((amount div int n + amount mod int n) # replicate (n - 1) (amount div int n))
       \<and> length ((amount div int n + amount mod int n) # replicate (n - 1) (amount div int n)) = n
       \<and> sum_list ((amount div int n + amount mod int n) # replicate (n - 1) (amount div int n)) = amount
       \<and> twapSwap cfg eng isBuy amount w
           = twapLoop cfg eng isBuy
               ((amount div int n + amount mod int n) # replicate (n - 1) (amount div int n)) 0 False w
       \<and> (useTwap isBuy amount = Inr True \<longrightarrow>
            executeSwap cfg eng isBuy amount w = twapSwap cfg eng isBuy amount w)
       \<and> (useTwap isBuy amount = Inr False \<longrightarrow>
            executeSwap cfg eng isBuy amount w = performSingleSwap isBuy amount w)
       \<and> (amount < 2 ^ 53 \<longrightarrow>
            useTwap False amount = Inr (1000000 < amount)
            \<and> useTwap True amount = Inr (1000000000 \<le> amount))
       \<and> twapSplit 5 103 = Inr [23, 20, 20, 20, 20]"
proof -
  have n0: "0 < int n" using assms(1) by simp
  have sp: "twapSplit (twapParts cfg) amount =
      Inr ((amount div int n + amount mod int n) # replicate (n - 1) (amount div int n))"
    using twapSplit_of_nat[OF assms(1), of amount] assms(2,3) n0
    by (simp add: trunc_div_nonneg trunc_mod_nonneg)
  have sm: "sum_list ((amount div int n + amount mod int n) # replicate (n - 1) (amount div int n)) = amount"
    using twapSplit_sum[OF assms(1), of amount] assms(3) n0
    by (simp add: trunc_div_nonneg trunc_mod_nonneg)
  have ln: "length ((amount div int n + amount mod int n) # replicate (n - 1) (amount div int n)) = n"
    using assms(1) by simp
  have tw: "twapSwap cfg eng isBuy amount w
           = twapLoop cfg eng isBuy
               ((amount div int n + amount mod int n) # replicate (n - 1) (amount div int n)) 0 False w"
    by (simp add: twapSwap_def sp)
  have a: "useTwap isBuy amount = Inr True \<longrightarrow>
            executeSwap cfg eng isBuy amount w = twapSwap cfg eng isBuy amount w"
    by (simp add: executeSwap_def)
  have b: "useTwap isBuy amount = Inr False \<longrightarrow>
            executeSwap cfg eng isBuy amount w = performSingleSwap isBuy amount w"
    by (simp add: executeSwap_def)
  have c: "amount < 2 ^ 53 \<longrightarrow>
            useTwap False amount = Inr (1000000 < amount)
            \<and> useTwap True amount = Inr (1000000000 \<le> amount)"
    using assms(3) useTwap_sell[of amount] useTwap_buy[of amount] by simp
  have d: "twapSplit 5 103 = Inr [23, 20, 20, 20, 20]"
    using twapSplit_of_nat[of 5 103]
    by (simp add: trunc_div_nonneg trunc_mod_nonneg numeral_eq_Suc)
  show ?thesis using sp sm ln tw a b c d by blast
qed

theorem C3_twap_split_witness:
  "useTwap False 1000003 = Inr True
   \<and> twapSplit (twapParts default_config) 1000003
       = Inr [200003, 200000, 200000, 200000, 200000]
   \<and> sum_list [200003, 200000, 200000, 200000, 200000 :: int] = 1000003
   \<and> executeSwap default_config TradingEngine_new False 1000003 sample_world
       = twapLoop default_config TradingEngine_new False
           [200003, 200000, 200000, 200000, 200000] 0 False sample_world
   \<and> useTwap False 1000000 = Inr False
   \<and> executeSwap default_config TradingEngine_new False 1000000 sample_world
       = performSingleSwap False 1000000 sample_world"
proof -
  have t: "twapParts default_config = of_nat 5" by (simp add: default_config_def)
  have u1: "useTwap False 1000003 = Inr True" and u2: "useTwap False 1000000 = Inr False"
    by (simp_all add: useTwap_sell)
  from C3_twap_split[of 5 default_config 1000003 TradingEngine_new False sample_world] t u1
  have a: "twapSplit (twapParts default_config) 1000003
       = Inr [200003, 200000, 200000, 200000, 200000]
     \<and> executeSwap default_config TradingEngine_new False 1000003 sample_world
       = twapLoop default_config TradingEngine_new False
           [200003, 200000, 200000, 200000, 200000] 0 False sample_world"
    by (simp add: numeral_eq_Suc)
  from C3_twap_split[of 5 default_config 1000000 TradingEngine_new False sample_world] t u2
  have b: "executeSwap default_config TradingEngine_new False 1000000 sample_world
       = performSingleSwap False 1000000 sample_world"
    by simp
  show ?thesis using a b u1 u2 by simp
qed

section \<open>Properties: the switches of the engine\<close>

lemma engine_frozen_refl [simp]: "engine_frozen eng eng"
  by (simp add: engine_frozen_def)

lemma engine_frozen_trans: "engine_frozen a b \<Longrightarrow> engine_frozen b c \<Longrightarrow> engine_frozen a c"
  by (simp add: engine_frozen_def)

lemma fetchSentiment_frozen:
  "fetchSentiment eng w = (score, eng1, w1) \<Longrightarrow> engine_frozen eng eng1"
  by (auto simp: fetchSentiment_def engine_frozen_def split: prod.splits if_splits option.splits)

lemma getProfileAdjustedAmount_frozen:
  "getProfileAdjustedAmount cfg wm wal isBuy eng w = (a, eng1, w1) \<Longrightarrow> engine_frozen eng eng1"
  by (auto simp: getProfileAdjustedAmount_def Let_def split: prod.splits if_splits
      dest: fetchSentiment_frozen)

lemma sizeSwap_frozen:
  "sizeSwap cfg wm isBuy wal eng w = (a, eng1, w1) \<Longrightarrow> engine_frozen eng eng1"
  by (auto simp: sizeSwap_def split: prod.splits dest: getProfileAdjustedAmount_frozen)

lemma performSwap_frozen:
  "performSwap cfg wm isBuy wal eng w = (res, eng1, w1) \<Longrightarrow> engine_frozen eng eng1"
  unfolding performSwap_def
  by (auto split: prod.splits if_splits sum.splits
      dest!: fetchSentiment_frozen sizeSwap_frozen intro: engine_frozen_trans)

lemma processActions_frozen:
  "processActions cfg wm wal actions v eng cb w = (res, eng1, cb1, w1) \<Longrightarrow> engine_frozen eng eng1"
proof (induction actions arbitrary: v eng cb w)
  case Nil
  then show ?case by simp
next
  case (Cons isBuy rest)
  from Cons.prems show ?case
    by (auto split: prod.splits if_splits sum.splits
        dest!: performSwap_frozen Cons.IH intro: engine_frozen_trans)
qed

lemma processWalletCycle_frozen:
  "processWalletCycle cfg wal wm eng cb w = (res, wm1, eng1, cb1, w1) \<Longrightarrow> engine_frozen eng eng1"
  unfolding processWalletCycle_def
  by (auto split: prod.splits if_splits sum.splits dest!: processActions_frozen)

lemma processBatch_frozen:
  "processBatch cfg batch wm eng cb w = (ress, wm1, eng1, cb1, w1) \<Longrightarrow> engine_frozen eng eng1"
proof (induction batch arbitrary: wm eng cb w ress)
  case Nil
  then show ?case by simp
next
  case (Cons wal rest)
  from Cons.prems show ?case
    by (auto split: prod.splits dest!: processWalletCycle_frozen Cons.IH intro: engine_frozen_trans)
qed

lemma runLoopBody_frozen:
  "runLoopBody cfg sb vb w = (out, vb1, w1) \<Longrightarrow> engine_frozen (tradingEngine vb) (tradingEngine vb1)"
  unfolding runLoopBody_def
  by (auto simp: Let_def split: prod.splits if_splits sum.splits dest!: processBatch_frozen)

lemma runLoop_frozen:
  "runLoop cfg balances k n vb w = (outs, vb1, w1) \<Longrightarrow> engine_frozen (tradingEngine vb) (tradingEngine vb1)"
proof (induction n arbitrary: k vb w outs)
  case 0
  then show ?case by simp
next
  case (Suc n)
  from Suc.prems show ?case
    by (auto split: prod.splits if_splits loop_outcome.splits
        dest!: runLoopBody_frozen Suc.IH intro: engine_frozen_trans)
qed

lemma init_engine: "tradingEngine (VolumeBoosterBot_init wm sb) = TradingEngine_new"
  by (simp add: VolumeBoosterBot_init_def)

lemma runLoop_engine_switches:
  "cycleCount (tradingEngine (fst (snd (runLoop cfg balances k n (VolumeBoosterBot_init wm sb) w)))) = 0
   \<and> isRunning (tradingEngine (fst (snd (runLoop cfg balances k n (VolumeBoosterBot_init wm sb) w)))) = None"
proof -
  obtain outs vb1 w1 where r: "runLoop cfg balances k n (VolumeBoosterBot_init wm sb) w = (outs, vb1, w1)"
    by (cases "runLoop cfg balances k n (VolumeBoosterBot_init wm sb) w") auto
  from runLoop_frozen[OF r] show ?thesis
    by (simp add: r engine_frozen_def init_engine TradingEngine_new_def)
qed

lemma twapLoop_not_running:
  "isRunning eng = None \<Longrightarrow> twapLoop cfg eng isBuy parts 0 False w = (Inr False, w)"
  by (subst twapLoop.simps) (simp add: truthy_def)

section \<open>Properties: two passes of the main loop on the sample inputs\<close>

lemma demo_pass1:
  "runLoopBody demo_config (Inr 0) (VolumeBoosterBot_init demo_wallets 0) sample_world =
     (Processed [demo_wallet], demo_bot1, demo_world1)"
  by (simp add: demo_bot1_def demo_world1_def runLoopBody_def VolumeBoosterBot_init_def demo_wallets_def WalletManager_new_def
      checkCircuitBreakers_def CircuitBreaker_new_def demo_config_fields failureRate_def
      loadActiveBatch_def cleanupOldCooldowns_def world_defs sample_world_def Let_def
      getWalletCooldown_def MAX_COOLDOWN_AGE_MS_def shuffleArray_def slice0_def toActiveWallet_def
      processWalletCycle_def getTradeActions_def Array_length_def bind_err_def
      MIN_MEME_TOKENS_def markWalletUsed_def js_rem_def demo_wallet_def TradingEngine_new_def
      numeral_2_eq_2)


lemma demo_pass2:
  "runLoopBody demo_config (Inr 0) demo_bot1 demo_world1 =
     (Processed [demo_wallet], demo_bot2, demo_world2)"
  apply (simp add: demo_bot1_def demo_world1_def demo_bot2_def demo_world2_def runLoopBody_def VolumeBoosterBot_init_def demo_wallets_def WalletManager_new_def
      checkCircuitBreakers_def CircuitBreaker_new_def demo_config_fields failureRate_def
      loadActiveBatch_def cleanupOldCooldowns_def world_defs sample_world_def Let_def
      getWalletCooldown_def MAX_COOLDOWN_AGE_MS_def shuffleArray_def slice0_def toActiveWallet_def
      processWalletCycle_def getTradeActions_def Array_length_def bind_err_def
      MIN_MEME_TOKENS_def markWalletUsed_def js_rem_def demo_wallet_def TradingEngine_new_def
      numeral_2_eq_2)
  apply (auto simp: fun_eq_iff MAX_COOLDOWN_AGE_MS_def)
  done

lemma runLoop_one:
  "runLoop cfg balances k (Suc 0) vb w =
     (if \<not> botRunning vb then ([], vb, w)
      else case runLoopBody cfg (balances k) vb w of (out, vb1, w1) \<Rightarrow> ([out], vb1, w1))"
  by (simp split: prod.splits loop_outcome.splits)

lemma demo_running: "botRunning (VolumeBoosterBot_init demo_wallets 0)" "botRunning demo_bot1"
  by (simp_all add: VolumeBoosterBot_init_def demo_bot1_def)


lemma demo_run2:
  "runLoop demo_config (\<lambda>k. Inr 0) 0 2 (VolumeBoosterBot_init demo_wallets 0) sample_world =
     ([Processed [demo_wallet], Processed [demo_wallet]], demo_bot2, demo_world2)"
proof -
  have "runLoop demo_config (\<lambda>k. Inr 0) 0 (Suc (Suc 0)) (VolumeBoosterBot_init demo_wallets 0) sample_world =
     ([Processed [demo_wallet], Processed [demo_wallet]], demo_bot2, demo_world2)"
    by (subst runLoop.simps) (simp add: runLoop_one demo_running demo_pass1 demo_pass2)
  then show ?thesis by (simp only: numeral_2_eq_2)
qed

text \<open>Were \<open>isRunning\<close> set, a share rejected three times after a share that succeeded
  would still not give the result true: the exception of \<open>performSingleSwap\<close> leaves
  \<open>twapSwap\<close>.\<close>

lemma twapLoop_throws_after_success:
  "fst (twapLoop default_config (TradingEngine_new \<lparr> isRunning := Some True \<rparr>) True
          [400000000, 400000000] 0 False one_fill_world) = Inl TradeError"
  by (simp add: twapLoop.simps truthy_def TradingEngine_new_def getAdaptiveAmount_def
      default_sizing_fields world_defs one_fill_world_def sample_world_def trunc_div_def
      BN_toNumber_def LAMPORTS_PER_SOL_def performSingleSwap_unrolled tradeEvent_def Let_def
      default_config_def)

lemma rampFactor_initial:
  "cycleCount eng = 0 \<Longrightarrow>
     rampFactor cfg eng = (if rampCycles cfg = 0 then 1 else min 1 (1 / rampCycles cfg))"
  by (simp add: rampFactor_def)

text \<open>When \<open>loadActiveBatch\<close> returns the empty array, \<open>activeWallets\<close> is what it was
  before the call, unless the selection itself was cut to nothing.\<close>

lemma loadActiveBatch_none_ready:
  assumes "fst (loadActiveBatch cfg wm w) = []"
  shows "activeWallets (fst (snd (loadActiveBatch cfg wm w))) = activeWallets wm
         \<or> activeWallets (fst (snd (loadActiveBatch cfg wm w))) = []"
  using assms
  by (auto simp: loadActiveBatch_def Date_now_def cleanupOldCooldowns_def random_def Let_def
      split: prod.splits if_splits)

text \<open>
  Claim C4. The loop of \<open>twapSwap\<close> tests \<open>this.isRunning\<close> of the engine before every
  share. The constructor of the engine does not set that property and nothing sets it
  later, so in every state the engine of a running bot reaches, the loop leaves at its
  first test: no share is delegated and the result is false. With the default
  configuration and a trade execution library that accepts every order, a buy of 2 SOL
  (above the threshold) makes no call and returns false, although the single execution
  of the same amount succeeds.
\<close>

theorem C4_twap_runs_no_share:
  "twapLoop cfg (tradingEngine (fst (snd (runLoop cfg balances k n (VolumeBoosterBot_init wm sb) w))))
       isBuy parts 0 False w' = (Inr False, w')
   \<and> useTwap True 2000000000 = Inr True
   \<and> executeSwap default_config TradingEngine_new True 2000000000 sample_world
       = (Inr False, sample_world)
   \<and> fst (performSingleSwap True 2000000000 sample_world) = Inr True"
proof -
  have a: "twapLoop cfg (tradingEngine (fst (snd (runLoop cfg balances k n (VolumeBoosterBot_init wm sb) w))))
       isBuy parts 0 False w' = (Inr False, w')"
    using runLoop_engine_switches[of cfg balances k n wm sb w] by (simp add: twapLoop_not_running)
  have u: "useTwap True 2000000000 = Inr True"
    by (simp add: useTwap_def BN_toNumber_def bind_err_def trunc_div_def LAMPORTS_PER_SOL_def)
  have sp: "twapSplit (twapParts default_config) 2000000000 =
      Inr [400000000, 400000000, 400000000, 400000000, 400000000]"
    by (simp add: twapSplit_def default_config_def Let_def trunc_div_def trunc_mod_def numeral_eq_Suc)
  have e: "executeSwap default_config TradingEngine_new True 2000000000 sample_world
       = (Inr False, sample_world)"
    by (simp add: executeSwap_def u twapSwap_def sp twapLoop_not_running TradingEngine_new_def)
  have p: "fst (performSingleSwap True 2000000000 sample_world) = Inr True"
    unfolding performSingleSwap_def
    by (subst attemptSwap.simps) (simp add: maxRetries_def tradeCall_def sample_world_def)
  show ?thesis using a u e p by simp
qed

text \<open>
  Claim C9. The ramp reads \<open>cycleCount\<close> of the engine; the main loop increments
  \<open>cycleCount\<close> of the bot. The count of the engine is 0 in every state a running bot
  reaches, so the ramp factor never grows. With RAMP_CYCLES = 2, after two cycles the
  amount 10000000 is still halved, where the specification gives the full amount.
\<close>

theorem C9_engine_cycle_count_frozen:
  "cycleCount (tradingEngine (fst (snd (runLoop cfg balances k n (VolumeBoosterBot_init wm sb) w)))) = 0
   \<and> rampFactor cfg (tradingEngine (fst (snd (runLoop cfg balances k n (VolumeBoosterBot_init wm sb) w))))
       = (if rampCycles cfg = 0 then 1 else min 1 (1 / rampCycles cfg))
   \<and> (case runLoop demo_config (\<lambda>k. Inr 0) 0 2 (VolumeBoosterBot_init demo_wallets 0) sample_world of
        (outs, vb, w') \<Rightarrow>
          botCycleCount vb = 2
          \<and> rampedAmount demo_config (tradingEngine vb) 10000000 = 5000000
          \<and> spec_ramped_amount (rampCycles demo_config) 1 10000000 = 10000000)"
proof -
  have "rampedAmount demo_config TradingEngine_new 10000000 = 5000000"
    by (simp add: rampedAmount_def rampFactor_def demo_config_fields TradingEngine_new_def
        trunc_div_def)
  moreover have "spec_ramped_amount (rampCycles demo_config) 1 10000000 = 10000000"
    by (simp add: spec_ramped_amount_def demo_config_fields)
  ultimately show ?thesis
    using runLoop_engine_switches[of cfg balances k n wm sb w]
      rampFactor_initial[of "tradingEngine (fst (snd (runLoop cfg balances k n (VolumeBoosterBot_init wm sb) w)))" cfg]
    by (simp add: demo_run2 demo_bot2_def)
qed


section \<open>Properties: partial sells\<close>









section \<open>Properties: the skipped buy of a hodler\<close>

lemma no_trade_refl [simp]: "no_trade w w"
  by (simp add: no_trade_def)

lemma no_trade_trans: "no_trade a b \<Longrightarrow> no_trade b c \<Longrightarrow> no_trade a c"
  by (simp add: no_trade_def)

lemma fetchSentiment_no_trade:
  "fetchSentiment eng w = (score, eng1, w1) \<Longrightarrow> no_trade w w1"
  by (auto simp: fetchSentiment_def no_trade_def Date_now_def sentimentRequest_def
      split: prod.splits if_splits option.splits)

lemma getAdaptiveAmount_no_trade:
  "getAdaptiveAmount cfg a w = (b, w1) \<Longrightarrow> no_trade w w1"
  by (auto simp: getAdaptiveAmount_def no_trade_def fetchVolatility_def getMarketData_liquidity_def
      Let_def split: prod.splits if_splits)

lemma getProfileAdjustedAmount_no_trade:
  "getProfileAdjustedAmount cfg wm wal isBuy eng w = (a, eng1, w1) \<Longrightarrow> no_trade w w1"
  unfolding getProfileAdjustedAmount_def
  by (auto simp: Let_def random_def getCurrentMemeBalance_def no_trade_def
      split: prod.splits if_splits dest!: fetchSentiment_no_trade)

lemma sizeSwap_no_trade:
  "sizeSwap cfg wm isBuy wal eng w = (a, eng1, w1) \<Longrightarrow> no_trade w w1"
  by (auto simp: sizeSwap_def split: prod.splits
      dest!: getProfileAdjustedAmount_no_trade getAdaptiveAmount_no_trade intro: no_trade_trans)

lemma BN_toNumber_whole_sol:
  assumes "0 < a" "a < 2 ^ 53"
  shows "BN_toNumber (trunc_div a LAMPORTS_PER_SOL) = Inr (of_int (a div 1000000000))"
proof -
  have d: "trunc_div a LAMPORTS_PER_SOL = a div 1000000000"
    using assms by (simp add: trunc_div_nonneg LAMPORTS_PER_SOL_def)
  have "0 \<le> a div 1000000000" using assms by (simp add: div_int_pos_iff)
  moreover have "a div 1000000000 \<le> a" using zdiv_mono2[of a 1 1000000000] assms by simp
  ultimately have "\<bar>a div 1000000000\<bar> < 2 ^ 53" using assms by linarith
  then show ?thesis by (simp add: d BN_toNumber_def)
qed

lemma performSwap_hodler_buy:
  assumes "getPersonality wm (keypair wal) = ''hodler''"
    and "fetchSentiment eng w = (score, eng1, w1)"
    and "sizeSwap cfg wm True wal eng1 w1 = (finalAmount, eng2, w3)"
    and "0 < finalAmount" and "finalAmount < 2 ^ 53"
    and "marketSafe w3 (n_marketChecks w3)"
  shows "performSwap cfg wm True wal eng w =
     (if randoms w3 (n_random w3) < 3/10
      then (Inr True, eng2,
            w3 \<lparr> n_marketChecks := Suc (n_marketChecks w3), n_random := Suc (n_random w3) \<rparr>)
      else (case executeSwap cfg eng2 True finalAmount
                   (w3 \<lparr> n_marketChecks := Suc (n_marketChecks w3), n_random := Suc (n_random w3) \<rparr>) of
              (res, w6) \<Rightarrow> (res, eng2, w6)))"
  using assms BN_toNumber_whole_sol[of finalAmount]
  by (simp add: performSwap_def checkMarketConditions_safe_def random_def)

text \<open>
  Claim C10. For a wallet with the personality hodler and a buy: when the sized amount
  is positive, the market check answers safe and the next draw of \<open>Math.random\<close> is below
  0.3 (an event of probability 0.3 for a uniform draw), \<open>performSwap\<close> returns true and,
  from the start of the action to its return, no call of the trade execution library is
  made and nothing is appended to the trace. \<open>processWalletCycle\<close> then goes on with the
  remaining actions after recording a success in the circuit breaker: the consecutive
  failures are 0 and True is pushed into the window. The balance queries before and
  after the swap are assumed to be answered, and the breaker to be enabled.
\<close>

theorem C10_hodler_buy_skipped:
  assumes "getPersonality wm (keypair wal) = ''hodler''"
    and "enableCircuitBreaker cfg"
    and "solBalance w (n_solBalance w) = Inr solBefore"
    and "fetchSentiment eng (w \<lparr> n_solBalance := Suc (n_solBalance w) \<rparr>) = (score, eng1, w1)"
    and "sizeSwap cfg wm True wal eng1 w1 = (finalAmount, eng2, w3)"
    and "0 < finalAmount" and "finalAmount < 2 ^ 53"
    and "marketSafe w3 (n_marketChecks w3)"
    and "randoms w3 (n_random w3) < 3/10"
    and "solBalance w3 (n_solBalance w3) = Inr solAfter"
    and "\<bar>solBefore - solAfter\<bar> < 2 ^ 53"
  shows "performSwap cfg wm True wal eng (w \<lparr> n_solBalance := Suc (n_solBalance w) \<rparr>)
           = (Inr True, eng2,
              w3 \<lparr> n_marketChecks := Suc (n_marketChecks w3), n_random := Suc (n_random w3) \<rparr>)
         \<and> n_trades w3 = n_trades w \<and> events w3 = events w
         \<and> processActions cfg wm wal (True # rest) v eng cb w
             = processActions cfg wm wal rest
                 (v + of_int (trunc_div (solBefore - solAfter) LAMPORTS_PER_SOL)) eng2
                 (recordTradeResult cfg True cb)
                 (delay (getJitteredValue (randoms w3 (Suc (n_random w3))) (baseDelayMs cfg) (jitterPct cfg))
                    (w3 \<lparr> n_marketChecks := Suc (n_marketChecks w3),
                          n_solBalance := Suc (n_solBalance w3),
                          n_random := Suc (Suc (n_random w3)) \<rparr>))
         \<and> consecutiveFailures (recordTradeResult cfg True cb) = 0
         \<and> (recentTrades (recordTradeResult cfg True cb) = recentTrades cb @ [True]
            \<or> recentTrades (recordTradeResult cfg True cb) = tl (recentTrades cb @ [True]))"
proof -
  let ?w0 = "w \<lparr> n_solBalance := Suc (n_solBalance w) \<rparr>"
  let ?w5 = "w3 \<lparr> n_marketChecks := Suc (n_marketChecks w3), n_random := Suc (n_random w3) \<rparr>"
  have ps: "performSwap cfg wm True wal eng ?w0 = (Inr True, eng2, ?w5)"
    using performSwap_hodler_buy[OF assms(1) assms(4) assms(5) assms(6) assms(7) assms(8)] assms(9)
    by simp
  have nt: "no_trade ?w0 w3"
    using fetchSentiment_no_trade[OF assms(4)] sizeSwap_no_trade[OF assms(5)]
    by (rule no_trade_trans)
  then have nt5: "n_trades w3 = n_trades w" "events w3 = events w"
    by (simp_all add: no_trade_def)
  define solDelta where "solDelta = solBefore - solAfter"
  have "\<bar>trunc_div solDelta LAMPORTS_PER_SOL\<bar> \<le> \<bar>solDelta\<bar>"
  proof -
    have "\<bar>solDelta\<bar> div 1000000000 \<le> \<bar>solDelta\<bar>"
      using zdiv_mono2[of "\<bar>solDelta\<bar>" 1 1000000000] by simp
    moreover have "0 \<le> \<bar>solDelta\<bar> div 1000000000" by (simp add: div_int_pos_iff)
    ultimately show ?thesis
      by (simp add: trunc_div_def LAMPORTS_PER_SOL_def abs_mult)
  qed
  then have tn: "BN_toNumber (trunc_div solDelta LAMPORTS_PER_SOL)
      = Inr (of_int (trunc_div solDelta LAMPORTS_PER_SOL))"
    using assms(11) by (simp add: BN_toNumber_def solDelta_def)
  have pa: "processActions cfg wm wal (True # rest) v eng cb w
      = processActions cfg wm wal rest (v + of_int (trunc_div (solBefore - solAfter) LAMPORTS_PER_SOL)) eng2
          (recordTradeResult cfg True cb)
          (delay (getJitteredValue (randoms w3 (Suc (n_random w3))) (baseDelayMs cfg) (jitterPct cfg))
             (w3 \<lparr> n_marketChecks := Suc (n_marketChecks w3),
                   n_solBalance := Suc (n_solBalance w3),
                   n_random := Suc (Suc (n_random w3)) \<rparr>))"
    using assms(3) assms(10) ps tn
    by (simp add: getBalance_def random_def solDelta_def)
  have cf: "consecutiveFailures (recordTradeResult cfg True cb) = 0"
    using assms(2) by (simp add: recordTradeResult_def Let_def)
  have rt: "recentTrades (recordTradeResult cfg True cb) = recentTrades cb @ [True]
            \<or> recentTrades (recordTradeResult cfg True cb) = tl (recentTrades cb @ [True])"
    using assms(2) by (simp add: recordTradeResult_def Let_def)
  show ?thesis
    using ps nt5 pa cf rt by blast
qed

theorem C10_hodler_buy_skipped_witness:
  "performSwap default_config hodler_wallets True demo_wallet TradingEngine_new
       (sample_world \<lparr> n_solBalance := Suc 0 \<rparr>)
     = (Inr True, TradingEngine_new,
        sample_world \<lparr> n_solBalance := Suc 0, n_clock := Suc 0, n_sentiment := Suc 0,
           n_volatility := Suc 0, n_marketChecks := Suc 0, n_random := Suc 0 \<rparr>)
   \<and> consecutiveFailures (recordTradeResult default_config True CircuitBreaker_new) = 0"
proof -
  let ?w1 = "sample_world \<lparr> n_solBalance := Suc 0, n_clock := Suc 0, n_sentiment := Suc 0 \<rparr>"
  let ?w3 = "sample_world \<lparr> n_solBalance := Suc 0, n_clock := Suc 0, n_sentiment := Suc 0,
                n_volatility := Suc 0 \<rparr>"
  have h1: "getPersonality hodler_wallets (keypair demo_wallet) = ''hodler''"
    by (simp add: getPersonality_def hodler_wallets_def demo_wallet_def)
  have h3: "solBalance sample_world (n_solBalance sample_world) = Inr 20000000"
    by (simp add: sample_world_def)
  have h4: "fetchSentiment TradingEngine_new (sample_world \<lparr> n_solBalance := Suc (n_solBalance sample_world) \<rparr>)
      = (50, TradingEngine_new, ?w1)"
    by (simp add: fetchSentiment_def world_defs sample_world_def TradingEngine_new_def
        SENTIMENT_FETCH_COOLDOWN_MS_def)
  have h5: "sizeSwap default_config hodler_wallets True demo_wallet TradingEngine_new ?w1
      = (900000, TradingEngine_new, ?w3)"
    by (simp add: sizeSwap_def getProfileAdjustedAmount_def getAdaptiveAmount_def h1
        default_sizing_fields world_defs sample_world_def rampedAmount_def rampFactor_def
        TradingEngine_new_def trunc_div_def Let_def)
  have h8: "marketSafe ?w3 (n_marketChecks ?w3)" by (simp add: sample_world_def)
  have h9: "randoms ?w3 (n_random ?w3) < 3/10" by (simp add: sample_world_def)
  have h10: "solBalance ?w3 (n_solBalance ?w3) = Inr 20000000" by (simp add: sample_world_def)
  from C10_hodler_buy_skipped[OF h1 default_breaker_fields(1) h3 h4 h5 _ _ h8 h9 h10,
      of "[]" 0 CircuitBreaker_new]
  show ?thesis by (simp add: sample_world_def)
qed

section \<open>Properties: batch selection\<close>

lemma getWalletCooldown_randoms:
  "getWalletCooldown cfg wm key w = (c, w1) \<Longrightarrow> randoms w1 = randoms w"
  by (auto simp: getWalletCooldown_def random_def Let_def)


lemma filterReady_randoms:
  "filterReady cfg wm now xs w = (ready, w1) \<Longrightarrow> randoms w1 = randoms w"
proof (induction xs arbitrary: w ready w1)
  case Nil
  then show ?case by simp
next
  case (Cons x xs)
  from Cons.prems show ?case
    by (auto simp: Let_def split: prod.splits if_splits
        dest!: Cons.IH getWalletCooldown_randoms)
qed










end
